theory Spec2Isabelle
  imports Main "HOL-Library.Char_ord"
begin

section \<open>Go strings (package strings), on byte strings\<close>

text \<open>
  A Go string is a sequence of bytes; it is modelled as a \<open>string\<close> (a list of 8-bit
  characters). Indices that Go reports as \<open>-1\<close> are \<open>None\<close> here.
\<close>

definition HasPrefix :: "string \<Rightarrow> string \<Rightarrow> bool" where
  "HasPrefix s p = (take (length p) s = p)"

definition HasSuffix :: "string \<Rightarrow> string \<Rightarrow> bool" where
  "HasSuffix s p = (length p \<le> length s \<and> drop (length s - length p) s = p)"

fun Index :: "string \<Rightarrow> string \<Rightarrow> nat option" where
  "Index [] sep = (if sep = [] then Some 0 else None)"
| "Index (c # s) sep =
     (if HasPrefix (c # s) sep then Some 0 else map_option Suc (Index s sep))"

definition LastIndex :: "string \<Rightarrow> string \<Rightarrow> nat option" where
  "LastIndex s sep =
     (case Index (rev s) (rev sep) of
        None \<Rightarrow> None
      | Some i \<Rightarrow> Some (length s - length sep - i))"

definition Contains :: "string \<Rightarrow> string \<Rightarrow> bool" where
  "Contains s sub = (Index s sub \<noteq> None)"

definition Cut :: "string \<Rightarrow> string \<Rightarrow> string \<times> string \<times> bool" where
  "Cut s sep =
     (case Index s sep of
        None \<Rightarrow> (s, [], False)
      | Some i \<Rightarrow> (take i s, drop (i + length sep) s, True))"

text \<open>\<open>strings.Count(s, string(c))\<close> for a one-byte separator.\<close>

definition CountByte :: "string \<Rightarrow> char \<Rightarrow> nat" where
  "CountByte s c = length (filter (\<lambda>x. x = c) s)"

definition isUpperAZ :: "char \<Rightarrow> bool" where
  "isUpperAZ c = (CHR ''A'' \<le> c \<and> c \<le> CHR ''Z'')"

definition isLowerAZ :: "char \<Rightarrow> bool" where
  "isLowerAZ c = (CHR ''a'' \<le> c \<and> c \<le> CHR ''z'')"

definition isDigit09 :: "char \<Rightarrow> bool" where
  "isDigit09 c = (CHR ''0'' \<le> c \<and> c \<le> CHR ''9'')"

text \<open>
  \<open>strings.ToLower\<close> on ASCII letters. The program applies it to a URL scheme only, which
  \<open>getScheme\<close> has already restricted to ASCII letters, digits, \<open>+\<close>, \<open>-\<close> and \<open>.\<close>.
\<close>

definition lowerByte :: "char \<Rightarrow> char" where
  "lowerByte c = (if isUpperAZ c then char_of (of_char c + (32::nat)) else c)"

definition ToLower :: "string \<Rightarrow> string" where
  "ToLower s = map lowerByte s"

section \<open>Go net/url: \<open>url.Parse\<close>\<close>

text \<open>
  \<open>ValidateURL\<close> and \<open>prxy.New\<close> call \<open>url.Parse\<close> of the Go standard library
  (net/url/url.go, Go 1.24, the version named in go.mod). The functions below follow
  that file function by function.
\<close>

datatype Userinfo = Userinfo (username: string) (password: string) (passwordSet: bool)

record URL =
  Scheme :: string
  Opaque :: string
  User :: "Userinfo option"
  Host :: string
  Path :: string
  RawPath :: string
  OmitHost :: bool
  ForceQuery :: bool
  RawQuery :: string
  Fragment :: string
  RawFragment :: string

text \<open>\<open>new(URL)\<close>: every field at its zero value.\<close>

definition new_URL :: URL where
  "new_URL = \<lparr>Scheme = [], Opaque = [], User = None, Host = [], Path = [], RawPath = [],
     OmitHost = False, ForceQuery = False, RawQuery = [], Fragment = [], RawFragment = []\<rparr>"

text \<open>The errors of net/url, one constructor for each place that creates one.\<close>

datatype url_err =
    InvalidControlCharacter        \<comment> \<open>"net/url: invalid control character in URL"\<close>
  | EmptyURL                       \<comment> \<open>"empty url"\<close>
  | InvalidURIForRequest           \<comment> \<open>"invalid URI for request"\<close>
  | MissingProtocolScheme          \<comment> \<open>"missing protocol scheme"\<close>
  | FirstPathSegmentColon          \<comment> \<open>"first path segment in URL cannot contain colon"\<close>
  | EscapeError string             \<comment> \<open>\<open>EscapeError(s)\<close>\<close>
  | InvalidHostError string        \<comment> \<open>\<open>InvalidHostError(s)\<close>\<close>
  | MissingBracketInHost           \<comment> \<open>"missing ']' in host"\<close>
  | InvalidPortAfterHost string    \<comment> \<open>"invalid port %q after host"\<close>
  | InvalidUserinfo                \<comment> \<open>"net/url: invalid userinfo"\<close>

text \<open>\<open>&url.Error{Op, URL, Err}\<close>.\<close>

datatype url_Error = url_Error (Op: string) (ErrURL: string) (Err: url_err)

datatype encoding =
    encodePath | encodePathSegment | encodeHost | encodeZone
  | encodeUserPassword | encodeQueryComponent | encodeFragment

definition ishex :: "char \<Rightarrow> bool" where
  "ishex c = (isDigit09 c \<or> (CHR ''a'' \<le> c \<and> c \<le> CHR ''f'') \<or> (CHR ''A'' \<le> c \<and> c \<le> CHR ''F''))"

definition unhex :: "char \<Rightarrow> nat" where
  "unhex c =
     (if isDigit09 c then of_char c - of_char CHR ''0''
      else if CHR ''a'' \<le> c \<and> c \<le> CHR ''f'' then of_char c - of_char CHR ''a'' + 10
      else if CHR ''A'' \<le> c \<and> c \<le> CHR ''F'' then of_char c - of_char CHR ''A'' + 10
      else 0)"

definition shouldEscape :: "char \<Rightarrow> encoding \<Rightarrow> bool" where
  "shouldEscape c mode =
     (if isLowerAZ c \<or> isUpperAZ c \<or> isDigit09 c then False
      else if (mode = encodeHost \<or> mode = encodeZone) \<and> c \<in> set ''!$&'()*+,;=:[]<>\"'' then False
      else if c \<in> set ''-_.~'' then False
      else if c \<in> set ''$&+,/:;=?@'' \<and> mode = encodePath then c = CHR ''?''
      else if c \<in> set ''$&+,/:;=?@'' \<and> mode = encodePathSegment then
        c = CHR ''/'' \<or> c = CHR '';'' \<or> c = CHR '','' \<or> c = CHR ''?''
      else if c \<in> set ''$&+,/:;=?@'' \<and> mode = encodeUserPassword then
        c = CHR ''@'' \<or> c = CHR ''/'' \<or> c = CHR ''?'' \<or> c = CHR '':''
      else if c \<in> set ''$&+,/:;=?@'' \<and> mode = encodeQueryComponent then True
      else if c \<in> set ''$&+,/:;=?@'' \<and> mode = encodeFragment then False
      else if mode = encodeFragment \<and> c \<in> set ''!()*'' then False
      else True)"

text \<open>The first loop of \<open>unescape\<close>: count the \<open>%\<close> and check that they are well-formed.\<close>

fun unescape_scan :: "encoding \<Rightarrow> string \<Rightarrow> nat \<Rightarrow> bool \<Rightarrow> url_err + nat \<times> bool" where
  "unescape_scan mode [] n hasPlus = Inr (n, hasPlus)"
| "unescape_scan mode (c # s) n hasPlus =
     (if c = CHR ''%'' then
        (case s of
           a # b # rest \<Rightarrow>
             (if \<not> ishex a \<or> \<not> ishex b then Inl (EscapeError [c, a, b])
              else if mode = encodeHost \<and> unhex a < 8 \<and> [c, a, b] \<noteq> ''%25'' then
                Inl (EscapeError [c, a, b])
              else if mode = encodeZone \<and> [c, a, b] \<noteq> ''%25''
                      \<and> char_of (unhex a * 16 + unhex b) \<noteq> CHR '' ''
                      \<and> shouldEscape (char_of (unhex a * 16 + unhex b)) encodeHost then
                Inl (EscapeError [c, a, b])
              else unescape_scan mode rest (Suc n) hasPlus)
         | _ \<Rightarrow> Inl (EscapeError (c # s)))
      else if c = CHR ''+'' then unescape_scan mode s n (mode = encodeQueryComponent)
      else if (mode = encodeHost \<or> mode = encodeZone) \<and> c < CHR 0x80
              \<and> shouldEscape c encodeHost then Inl (InvalidHostError [c])
      else unescape_scan mode s n hasPlus)"

text \<open>
  The second loop of \<open>unescape\<close>; it runs only on strings the first loop accepted, where
  every \<open>%\<close> is followed by two hexadecimal digits.
\<close>

fun unescape_build :: "encoding \<Rightarrow> string \<Rightarrow> string" where
  "unescape_build mode [] = []"
| "unescape_build mode (c # s) =
     (if c = CHR ''%'' then
        (case s of
           a # b # rest \<Rightarrow> char_of (unhex a * 16 + unhex b) # unescape_build mode rest
         | _ \<Rightarrow> [])
      else if c = CHR ''+'' then
        (if mode = encodeQueryComponent then CHR '' '' else CHR ''+'') # unescape_build mode s
      else c # unescape_build mode s)"

definition unescape :: "string \<Rightarrow> encoding \<Rightarrow> url_err + string" where
  "unescape s mode =
     (case unescape_scan mode s 0 False of
        Inl e \<Rightarrow> Inl e
      | Inr (n, hasPlus) \<Rightarrow>
          if n = 0 \<and> \<not> hasPlus then Inr s else Inr (unescape_build mode s))"

definition upperhex :: "nat \<Rightarrow> char" where
  "upperhex i = ''0123456789ABCDEF'' ! i"

text \<open>
  \<open>escape\<close>: Go returns \<open>s\<close> itself when no byte needs escaping, which is what the
  byte-by-byte rewriting gives in that case.
\<close>

definition escape :: "string \<Rightarrow> encoding \<Rightarrow> string" where
  "escape s mode =
     concat (map (\<lambda>c.
       if shouldEscape c mode then
         (if c = CHR '' '' \<and> mode = encodeQueryComponent then ''+''
          else [CHR ''%'', upperhex (of_char c div 16), upperhex (of_char c mod 16)])
       else [c]) s)"

definition validEncoded :: "string \<Rightarrow> encoding \<Rightarrow> bool" where
  "validEncoded s mode =
     list_all (\<lambda>c. c \<in> set ''!$&'()*+,;=:@'' \<or> c \<in> set ''[]'' \<or> c = CHR ''%''
                   \<or> \<not> shouldEscape c mode) s"

definition stringContainsCTLByte :: "string \<Rightarrow> bool" where
  "stringContainsCTLByte s = list_ex (\<lambda>b. b < CHR '' '' \<or> b = CHR 0x7F) s"

fun getScheme_from :: "string \<Rightarrow> string \<Rightarrow> nat \<Rightarrow> url_err + string \<times> string" where
  "getScheme_from rawURL [] i = Inr ([], rawURL)"
| "getScheme_from rawURL (c # cs) i =
     (if isLowerAZ c \<or> isUpperAZ c then getScheme_from rawURL cs (Suc i)
      else if isDigit09 c \<or> c = CHR ''+'' \<or> c = CHR ''-'' \<or> c = CHR ''.'' then
        (if i = 0 then Inr ([], rawURL) else getScheme_from rawURL cs (Suc i))
      else if c = CHR '':'' then
        (if i = 0 then Inl MissingProtocolScheme
         else Inr (take i rawURL, drop (Suc i) rawURL))
      else Inr ([], rawURL))"

definition getScheme :: "string \<Rightarrow> url_err + string \<times> string" where
  "getScheme rawURL = getScheme_from rawURL rawURL 0"

definition validOptionalPort :: "string \<Rightarrow> bool" where
  "validOptionalPort port =
     (case port of
        [] \<Rightarrow> True
      | c # ds \<Rightarrow> c = CHR '':'' \<and> list_all (\<lambda>b. \<not> (b < CHR ''0'' \<or> b > CHR ''9'')) ds)"

definition validUserinfo :: "string \<Rightarrow> bool" where
  "validUserinfo s =
     list_all (\<lambda>r. isUpperAZ r \<or> isLowerAZ r \<or> isDigit09 r
                   \<or> r \<in> set ''-._:~!$&'()*+,;=%@'') s"

definition parseHost :: "string \<Rightarrow> url_err + string" where
  "parseHost host =
     (if HasPrefix host ''['' then
        (case LastIndex host '']'' of
           None \<Rightarrow> Inl MissingBracketInHost
         | Some i \<Rightarrow>
             (let colonPort = drop (i + 1) host in
              if \<not> validOptionalPort colonPort then Inl (InvalidPortAfterHost colonPort)
              else
                (case Index (take i host) ''%25'' of
                   Some zone \<Rightarrow>
                     (case unescape (take zone host) encodeHost of
                        Inl e \<Rightarrow> Inl e
                      | Inr host1 \<Rightarrow>
                          (case unescape (drop zone (take i host)) encodeZone of
                             Inl e \<Rightarrow> Inl e
                           | Inr host2 \<Rightarrow>
                               (case unescape (drop i host) encodeHost of
                                  Inl e \<Rightarrow> Inl e
                                | Inr host3 \<Rightarrow> Inr (host1 @ host2 @ host3))))
                 | None \<Rightarrow> unescape host encodeHost)))
      else
        (case LastIndex host '':'' of
           Some i \<Rightarrow>
             (let colonPort = drop i host in
              if \<not> validOptionalPort colonPort then Inl (InvalidPortAfterHost colonPort)
              else unescape host encodeHost)
         | None \<Rightarrow> unescape host encodeHost))"

definition parseAuthority :: "string \<Rightarrow> url_err + Userinfo option \<times> string" where
  "parseAuthority authority =
     (case LastIndex authority ''@'' of
        None \<Rightarrow>
          (case parseHost authority of
             Inl e \<Rightarrow> Inl e
           | Inr host \<Rightarrow> Inr (None, host))
      | Some i \<Rightarrow>
          (case parseHost (drop (i + 1) authority) of
             Inl e \<Rightarrow> Inl e
           | Inr host \<Rightarrow>
               (let userinfo = take i authority in
                if \<not> validUserinfo userinfo then Inl InvalidUserinfo
                else if \<not> Contains userinfo '':'' then
                  (case unescape userinfo encodeUserPassword of
                     Inl e \<Rightarrow> Inl e
                   | Inr u \<Rightarrow> Inr (Some (Userinfo u [] False), host))
                else
                  (case Cut userinfo '':'' of
                     (uname, pass, _) \<Rightarrow>
                       (case unescape uname encodeUserPassword of
                          Inl e \<Rightarrow> Inl e
                        | Inr u \<Rightarrow>
                            (case unescape pass encodeUserPassword of
                               Inl e \<Rightarrow> Inl e
                             | Inr p \<Rightarrow> Inr (Some (Userinfo u p True), host)))))))"

definition setPath :: "URL \<Rightarrow> string \<Rightarrow> url_err + URL" where
  "setPath u p =
     (case unescape p encodePath of
        Inl e \<Rightarrow> Inl e
      | Inr path \<Rightarrow>
          Inr (u\<lparr>Path := path,
                 RawPath := (if p = escape path encodePath then [] else p)\<rparr>))"

definition setFragment :: "URL \<Rightarrow> string \<Rightarrow> url_err + URL" where
  "setFragment u f =
     (case unescape f encodeFragment of
        Inl e \<Rightarrow> Inl e
      | Inr frag \<Rightarrow>
          Inr (u\<lparr>Fragment := frag,
                 RawFragment := (if f = escape frag encodeFragment then [] else f)\<rparr>))"

text \<open>
  \<open>parse(rawURL, viaRequest)\<close>. The steps after the scheme has been split off are
  \<open>parse_rest\<close>: the query, the opaque and relative forms, the authority and the path.
\<close>

definition parse_authority_path :: "bool \<Rightarrow> URL \<Rightarrow> string \<Rightarrow> url_err + URL" where
  "parse_authority_path viaRequest u rest =
     (if (Scheme u \<noteq> [] \<or> (\<not> viaRequest \<and> \<not> HasPrefix rest ''///'')) \<and> HasPrefix rest ''//'' then
        (let authority0 = drop 2 rest;
             (authority, rest') =
               (case Index authority0 ''/'' of
                  Some i \<Rightarrow> (take i authority0, drop i authority0)
                | None \<Rightarrow> (authority0, []))
         in case parseAuthority authority of
              Inl e \<Rightarrow> Inl e
            | Inr (usr, host) \<Rightarrow> setPath (u\<lparr>User := usr, Host := host\<rparr>) rest')
      else if Scheme u \<noteq> [] \<and> HasPrefix rest ''/'' then
        setPath (u\<lparr>OmitHost := True\<rparr>) rest
      else setPath u rest)"

definition parse_rest :: "bool \<Rightarrow> URL \<Rightarrow> string \<Rightarrow> url_err + URL" where
  "parse_rest viaRequest u0 rest0 =
     (let (u, rest) =
            (if HasSuffix rest0 ''?'' \<and> CountByte rest0 CHR ''?'' = 1 then
               (u0\<lparr>ForceQuery := True\<rparr>, take (length rest0 - 1) rest0)
             else
               (case Cut rest0 ''?'' of
                  (before, after, _) \<Rightarrow> (u0\<lparr>RawQuery := after\<rparr>, before)))
      in
        if \<not> HasPrefix rest ''/'' then
          (if Scheme u \<noteq> [] then Inr (u\<lparr>Opaque := rest\<rparr>)
           else if viaRequest then Inl InvalidURIForRequest
           else if Contains (fst (Cut rest ''/'')) '':'' then Inl FirstPathSegmentColon
           else parse_authority_path viaRequest u rest)
        else parse_authority_path viaRequest u rest)"

definition parse :: "string \<Rightarrow> bool \<Rightarrow> url_err + URL" where
  "parse rawURL viaRequest =
     (if stringContainsCTLByte rawURL then Inl InvalidControlCharacter
      else if rawURL = [] \<and> viaRequest then Inl EmptyURL
      else if rawURL = ''*'' then Inr (new_URL\<lparr>Path := ''*''\<rparr>)
      else
        (case getScheme rawURL of
           Inl e \<Rightarrow> Inl e
         | Inr (scheme, rest) \<Rightarrow>
             parse_rest viaRequest (new_URL\<lparr>Scheme := ToLower scheme\<rparr>) rest))"

definition url_Parse :: "string \<Rightarrow> url_Error + URL" where
  "url_Parse rawURL =
     (case Cut rawURL ''#'' of
        (u, frag, _) \<Rightarrow>
          (case parse u False of
             Inl e \<Rightarrow> Inl (url_Error ''parse'' u e)
           | Inr url \<Rightarrow>
               if frag = [] then Inr url
               else
                 (case setFragment url frag of
                    Inl e \<Rightarrow> Inl (url_Error ''parse'' rawURL e)
                  | Inr url' \<Rightarrow> Inr url')))"

section \<open>Package validation\<close>

text \<open>
  A Go \<open>error\<close> result is an option: \<open>None\<close> is \<open>nil\<close>. Each \<open>fmt.Errorf\<close> and
  \<open>errors.New\<close> of the program is a constructor that keeps the operands of the message.
\<close>

datatype validation_error =
    CannotParseURL string url_Error        \<comment> \<open>"cannot parse URL %q: %v"\<close>
  | InvalidURLScheme string "string list"  \<comment> \<open>"URL scheme %q is invalid; must be one of: %v"\<close>
  | EmptyURLHost                           \<comment> \<open>"URL must have a non-empty host"\<close>
  | InvalidValue string "string list"      \<comment> \<open>"invalid value '%v' (valid values are %v)"\<close>

definition ValidateURL :: "string \<Rightarrow> validation_error option" where
  "ValidateURL rawURL =
     (let validSchemes = [''http'', ''https''] in
      case url_Parse rawURL of
        Inl err \<Rightarrow> Some (CannotParseURL rawURL err)
      | Inr parsedURL \<Rightarrow>
          if Scheme parsedURL \<notin> set validSchemes then
            Some (InvalidURLScheme (Scheme parsedURL) validSchemes)
          else if Host parsedURL = [] then Some EmptyURLHost
          else None)"

text \<open>The generic \<open>Validate\<close>, used at the string types \<open>LogLevel\<close>, \<open>LogFormat\<close>, \<open>LogOutput\<close>.\<close>

definition Validate :: "string \<Rightarrow> string list \<Rightarrow> validation_error option" where
  "Validate v validOptions =
     (if v \<in> set validOptions then None else Some (InvalidValue v validOptions))"

section \<open>Package config\<close>

record LoggingConfig =
  Level :: string
  Format :: string
  Output :: string
  LogPath :: string

definition LogLevelDebug :: string where "LogLevelDebug = ''debug''"
definition LogLevelInfo :: string where "LogLevelInfo = ''info''"
definition LogLevelWarn :: string where "LogLevelWarn = ''warn''"
definition LogLevelError :: string where "LogLevelError = ''error''"
definition LogLevelFatal :: string where "LogLevelFatal = ''fatal''"
definition LogFormatText :: string where "LogFormatText = ''text''"
definition LogFormatJSON :: string where "LogFormatJSON = ''json''"
definition LogOutputStdout :: string where "LogOutputStdout = ''stdout''"
definition LogOutputStderr :: string where "LogOutputStderr = ''stderr''"
definition LogOutputFile :: string where "LogOutputFile = ''file''"

definition ValidLogLevels :: "string list" where
  "ValidLogLevels = [LogLevelDebug, LogLevelInfo, LogLevelWarn, LogLevelError, LogLevelFatal]"

definition ValidLogFormats :: "string list" where
  "ValidLogFormats = [LogFormatText, LogFormatJSON]"

definition ValidLogOutputs :: "string list" where
  "ValidLogOutputs = [LogOutputStdout, LogOutputStderr, LogOutputFile]"

datatype logging_error =
    InvalidLogLevel validation_error       \<comment> \<open>"invalid log level: %v"\<close>
  | InvalidLogFormat validation_error      \<comment> \<open>"invalid log format: %v"\<close>
  | InvalidLogOutput validation_error      \<comment> \<open>"invalid log output destination: %v"\<close>
  | LogPathRequired                        \<comment> \<open>"log path must be specified when output is 'file'"\<close>

datatype config_error =
    InvalidTargetURL validation_error      \<comment> \<open>"invalid target URL: %v"\<close>
  | InvalidProxyURL validation_error       \<comment> \<open>"invalid proxy URL: %v"\<close>
  | InvalidPort int                        \<comment> \<open>"invalid port: %d"\<close>
  | JoinedErrors "logging_error list"      \<comment> \<open>\<open>errors.Join(errs...)\<close>\<close>

text \<open>\<open>LoggingConfig.Validate\<close>: the errors are collected in order and joined.\<close>

definition LoggingConfig_errs :: "LoggingConfig \<Rightarrow> logging_error list" where
  "LoggingConfig_errs cfg =
     (case Validate (Level cfg) ValidLogLevels of
        Some err \<Rightarrow> [InvalidLogLevel err] | None \<Rightarrow> [])
     @ (case Validate (Format cfg) ValidLogFormats of
        Some err \<Rightarrow> [InvalidLogFormat err] | None \<Rightarrow> [])
     @ (case Validate (Output cfg) ValidLogOutputs of
        Some err \<Rightarrow> [InvalidLogOutput err] | None \<Rightarrow> [])
     @ (if Output cfg = LogOutputFile \<and> LogPath cfg = [] then [LogPathRequired] else [])"

definition LoggingConfig_Validate :: "LoggingConfig \<Rightarrow> config_error option" where
  "LoggingConfig_Validate cfg =
     (let errs = LoggingConfig_errs cfg in
      if length errs > 0 then Some (JoinedErrors errs) else None)"

text \<open>\<open>Port\<close> is a Go \<open>int\<close>; only its comparison with 0 and 65535 is used.\<close>

record Config =
  Target :: string
  Proxy :: string
  ListenHost :: string
  Port :: int
  Logging :: LoggingConfig

definition Defaults :: Config where
  "Defaults = \<lparr>Target = [], Proxy = [], ListenHost = ''localhost'', Port = 0,
     Logging = \<lparr>Level = LogLevelInfo, Format = LogFormatText, Output = LogOutputStdout,
                 LogPath = []\<rparr>\<rparr>"

definition validateConfig :: "Config \<Rightarrow> config_error option" where
  "validateConfig cfg =
     (case ValidateURL (Target cfg) of
        Some err \<Rightarrow> Some (InvalidTargetURL err)
      | None \<Rightarrow>
          (case ValidateURL (Proxy cfg) of
             Some err \<Rightarrow> Some (InvalidProxyURL err)
           | None \<Rightarrow>
               if Port cfg < 0 \<or> Port cfg > 65535 then Some (InvalidPort (Port cfg))
               else
                 (case LoggingConfig_Validate (Logging cfg) of
                    Some err \<Rightarrow> Some err
                  | None \<Rightarrow> None)))"

text \<open>
  \<open>config.New\<close>. The two calls into the koanf library are its inputs: \<open>load\<close> is the error
  of \<open>k.Load\<close> (\<open>None\<close> for \<open>nil\<close>), and \<open>unmarshal\<close> is what \<open>k.Unmarshal\<close> does to the
  struct that starts as \<open>Defaults\<close>: an error, or the struct with the flags and
  environment variables filled in.
\<close>

datatype new_config_error =
    FailedToLoadCLIFlags string            \<comment> \<open>"failed to load CLI flags: %v"\<close>
  | FailedToUnmarshalConfig string         \<comment> \<open>"failed to unmarshal config: %v"\<close>
  | InvalidConfiguration config_error      \<comment> \<open>"invalid configuration: %v"\<close>

definition config_New ::
  "string option \<Rightarrow> (Config \<Rightarrow> string + Config) \<Rightarrow> new_config_error + Config" where
  "config_New load unmarshal =
     (case load of
        Some err \<Rightarrow> Inl (FailedToLoadCLIFlags err)
      | None \<Rightarrow>
          (case unmarshal Defaults of
             Inl err \<Rightarrow> Inl (FailedToUnmarshalConfig err)
           | Inr cfg \<Rightarrow>
               (case validateConfig cfg of
                  Some err \<Rightarrow> Inl (InvalidConfiguration err)
                | None \<Rightarrow> Inr cfg)))"

section \<open>Go strconv and net: building the listen address\<close>

definition digitChar :: "nat \<Rightarrow> char" where
  "digitChar d = ''0123456789'' ! d"

function decimal :: "nat \<Rightarrow> string" where
  "decimal n = (if n < 10 then [digitChar n] else decimal (n div 10) @ [digitChar (n mod 10)])"
  by pat_completeness auto
termination
  by (relation "measure (\<lambda>n. n)") auto

declare decimal.simps [simp del]

text \<open>\<open>strconv.Itoa\<close>.\<close>

definition Itoa :: "int \<Rightarrow> string" where
  "Itoa i = (if i < 0 then ''-'' @ decimal (nat (- i)) else decimal (nat i))"

text \<open>\<open>net.JoinHostPort\<close>: a host that contains a colon is put in brackets.\<close>

definition JoinHostPort :: "string \<Rightarrow> string \<Rightarrow> string" where
  "JoinHostPort host port =
     (if CHR '':'' \<in> set host then ''['' @ host @ '']:'' @ port
      else host @ '':'' @ port)"

text \<open>\<open>&net.AddrError{Err: why, Addr: addr}\<close>.\<close>

datatype AddrError = AddrError string string

definition SplitHostPort :: "string \<Rightarrow> AddrError + string \<times> string" where
  "SplitHostPort hostport =
     (case LastIndex hostport '':'' of
        None \<Rightarrow> Inl (AddrError ''missing port in address'' hostport)
      | Some i \<Rightarrow>
          if hd hostport = CHR ''['' then
            (case Index hostport '']'' of
               None \<Rightarrow> Inl (AddrError ''missing ']' in address'' hostport)
             | Some end \<Rightarrow>
                 if end + 1 = length hostport then
                   Inl (AddrError ''missing port in address'' hostport)
                 else if end + 1 \<noteq> i then
                   (if hostport ! (end + 1) = CHR '':'' then
                      Inl (AddrError ''too many colons in address'' hostport)
                    else Inl (AddrError ''missing port in address'' hostport))
                 else if CHR ''['' \<in> set (drop 1 hostport) then
                   Inl (AddrError ''unexpected '[' in address'' hostport)
                 else if CHR '']'' \<in> set (drop (end + 1) hostport) then
                   Inl (AddrError ''unexpected ']' in address'' hostport)
                 else Inr (take (end - 1) (drop 1 hostport), drop (i + 1) hostport))
          else
            (let host = take i hostport in
             if CHR '':'' \<in> set host then
               Inl (AddrError ''too many colons in address'' hostport)
             else if CHR ''['' \<in> set hostport then
               Inl (AddrError ''unexpected '[' in address'' hostport)
             else if CHR '']'' \<in> set hostport then
               Inl (AddrError ''unexpected ']' in address'' hostport)
             else Inr (host, drop (i + 1) hostport)))"

section \<open>Go net/textproto and x/net/http/httpguts: header keys and tokens\<close>

definition validHeaderFieldByte :: "char \<Rightarrow> bool" where
  "validHeaderFieldByte c =
     (isDigit09 c \<or> isLowerAZ c \<or> isUpperAZ c \<or> c \<in> set ''!#$%&'*+-.^_`|~'')"

text \<open>The canonicalising loop: upper case at the start and after each dash, lower case elsewhere.\<close>

fun canonLoop :: "bool \<Rightarrow> string \<Rightarrow> string" where
  "canonLoop upper [] = []"
| "canonLoop upper (c # cs) =
     (let c' = (if upper \<and> isLowerAZ c then char_of (of_char c - (32::nat))
                else if \<not> upper \<and> isUpperAZ c then char_of (of_char c + (32::nat))
                else c)
      in c' # canonLoop (c' = CHR ''-'') cs)"

text \<open>
  \<open>canonicalMIMEHeaderKey\<close>: a key with a byte that is no header-field byte is returned
  unchanged, also when that byte is a space. The final look-up in the table of common
  headers returns a string equal to its key and is left out.
\<close>

definition canonicalMIMEHeaderKey :: "string \<Rightarrow> string" where
  "canonicalMIMEHeaderKey a =
     (if a = [] then []
      else if list_ex (\<lambda>c. \<not> validHeaderFieldByte c \<and> c \<noteq> CHR '' '') a then a
      else if list_ex (\<lambda>c. c = CHR '' '') a then a
      else canonLoop True a)"

fun CanonicalMIMEHeaderKey_from :: "string \<Rightarrow> string \<Rightarrow> bool \<Rightarrow> string" where
  "CanonicalMIMEHeaderKey_from s [] upper = s"
| "CanonicalMIMEHeaderKey_from s (c # cs) upper =
     (if \<not> validHeaderFieldByte c then s
      else if upper \<and> isLowerAZ c then canonicalMIMEHeaderKey s
      else if \<not> upper \<and> isUpperAZ c then canonicalMIMEHeaderKey s
      else CanonicalMIMEHeaderKey_from s cs (c = CHR ''-''))"

definition CanonicalMIMEHeaderKey :: "string \<Rightarrow> string" where
  "CanonicalMIMEHeaderKey s = CanonicalMIMEHeaderKey_from s s True"

definition isASCIISpace :: "char \<Rightarrow> bool" where
  "isASCIISpace b = (b = CHR '' '' \<or> b = CHR 0x09 \<or> b = CHR 0x0A \<or> b = CHR 0x0D)"

text \<open>\<open>textproto.TrimString\<close>.\<close>

definition TrimString :: "string \<Rightarrow> string" where
  "TrimString s = rev (dropWhile isASCIISpace (rev (dropWhile isASCIISpace s)))"

definition isOWS :: "char \<Rightarrow> bool" where
  "isOWS b = (b = CHR '' '' \<or> b = CHR 0x09)"

definition trimOWS :: "string \<Rightarrow> string" where
  "trimOWS x = rev (dropWhile isOWS (rev (dropWhile isOWS x)))"

definition lowerASCII :: "char \<Rightarrow> char" where
  "lowerASCII b = (if isUpperAZ b then char_of (of_char b + (32::nat)) else b)"

text \<open>\<open>tokenEqual\<close>: equal up to ASCII case, and false as soon as \<open>t1\<close> has a non-ASCII byte.\<close>

definition tokenEqual :: "string \<Rightarrow> string \<Rightarrow> bool" where
  "tokenEqual t1 t2 =
     (length t1 = length t2
      \<and> list_all (\<lambda>(b, b2). b < CHR 0x80 \<and> lowerASCII b = lowerASCII b2) (zip t1 t2))"

text \<open>\<open>strings.Split(s, string(c))\<close> for a one-byte separator.\<close>

fun SplitByte :: "string \<Rightarrow> char \<Rightarrow> string list" where
  "SplitByte [] c = [[]]"
| "SplitByte (x # xs) c =
     (if x = c then [] # SplitByte xs c
      else (case SplitByte xs c of
              p # ps \<Rightarrow> (x # p) # ps
            | [] \<Rightarrow> [[x]]))"

text \<open>
  \<open>headerValueContainsToken\<close> walks the value comma by comma; that is a test of each
  comma-separated piece.
\<close>

definition headerValueContainsToken :: "string \<Rightarrow> string \<Rightarrow> bool" where
  "headerValueContainsToken v token =
     list_ex (\<lambda>piece. tokenEqual (trimOWS piece) token) (SplitByte v CHR '','')"

definition HeaderValuesContainsToken :: "string list \<Rightarrow> string \<Rightarrow> bool" where
  "HeaderValuesContainsToken vals token = list_ex (\<lambda>v. headerValueContainsToken v token) vals"

text \<open>\<open>ascii.IsPrint\<close> of net/http/internal/ascii.\<close>

definition IsPrint :: "string \<Rightarrow> bool" where
  "IsPrint s = list_all (\<lambda>c. \<not> (c < CHR '' '' \<or> c > CHR ''~'')) s"

section \<open>Go net/http: headers, requests, responses\<close>

text \<open>
  \<open>http.Header\<close> is \<open>map[string][]string\<close>. A key bound to the empty list stands for a key
  bound to a \<open>nil\<close> slice; the headers that \<open>http.Server\<close> parses bind every key to at least
  one value.
\<close>

type_synonym Header = "string \<rightharpoonup> string list"

text \<open>\<open>h[key]\<close>, the direct map index: the \<open>nil\<close> slice when the key is absent.\<close>

definition Header_values :: "Header \<Rightarrow> string \<Rightarrow> string list" where
  "Header_values h key = (case h key of None \<Rightarrow> [] | Some vs \<Rightarrow> vs)"

definition Header_Get :: "Header \<Rightarrow> string \<Rightarrow> string" where
  "Header_Get h key =
     (case Header_values h (CanonicalMIMEHeaderKey key) of [] \<Rightarrow> [] | v # _ \<Rightarrow> v)"

definition Header_Set :: "Header \<Rightarrow> string \<Rightarrow> string \<Rightarrow> Header" where
  "Header_Set h key v = h(CanonicalMIMEHeaderKey key \<mapsto> [v])"

definition Header_Del :: "Header \<Rightarrow> string \<Rightarrow> Header" where
  "Header_Del h key = h(CanonicalMIMEHeaderKey key := None)"

text \<open>
  The fields of \<open>http.Request\<close> that the request path of the reverse proxy reads or
  writes, and the two in which net/http carries hop-by-hop information outside the
  header map: when \<open>http.Server\<close> reads a request it moves \<open>Transfer-Encoding\<close> and
  \<open>Trailer\<close> out of the header into the fields \<open>TransferEncoding\<close> and \<open>Trailer\<close>, and the
  transport writes a request with what it finds in these fields. \<open>Form\<close> is left out:
  \<open>http.Server\<close> hands a request to its handler unparsed, the handler of this program is
  the reverse proxy itself, so \<open>Form\<close> is \<open>nil\<close> when the proxy looks at it. The
  remaining fields are copied by \<open>Clone\<close> and not touched.
\<close>

record Request =
  Method :: string
  ReqURL :: URL
  Header :: Header
  Body :: "string option"
  ContentLength :: int
  TransferEncoding :: "string list"
  Close :: bool
  ReqHost :: string
  Trailer :: Header
  RemoteAddr :: string

record Response =
  StatusCode :: nat
  RespHeader :: Header
  RespBody :: string

text \<open>
  An \<open>error\<close> value of the HTTP layer: the sentinels \<open>http.ErrServerClosed\<close>,
  \<open>context.DeadlineExceeded\<close> and \<open>context.Canceled\<close>, or any other error, known by the
  text that its \<open>Error\<close> method returns.
\<close>

datatype error = ErrServerClosed | DeadlineExceeded | Canceled | errorString string

fun Error :: "error \<Rightarrow> string" where
  "Error ErrServerClosed = ''http: Server closed''"
| "Error DeadlineExceeded = ''context deadline exceeded''"
| "Error Canceled = ''context canceled''"
| "Error (errorString s) = s"

text \<open>
  An \<open>http.ResponseWriter\<close>: the header map, the status once \<open>WriteHeader\<close> has run, and
  the bytes written.
\<close>

record ResponseWriter =
  rwHeader :: Header
  rwStatus :: "nat option"
  rwBody :: string

definition WriteHeader :: "ResponseWriter \<Rightarrow> nat \<Rightarrow> ResponseWriter" where
  "WriteHeader w code = (if rwStatus w = None then w\<lparr>rwStatus := Some code\<rparr> else w)"

definition StatusOK :: nat where "StatusOK = 200"
definition StatusBadGateway :: nat where "StatusBadGateway = 502"

definition Write :: "ResponseWriter \<Rightarrow> string \<Rightarrow> ResponseWriter" where
  "Write w p = (let w' = WriteHeader w StatusOK in w'\<lparr>rwBody := rwBody w' @ p\<rparr>)"

text \<open>\<open>http.Error\<close>; \<open>fmt.Fprintln\<close> writes the text and a newline.\<close>

definition http_Error :: "ResponseWriter \<Rightarrow> string \<Rightarrow> nat \<Rightarrow> ResponseWriter" where
  "http_Error w err code =
     (let h = Header_Del (rwHeader w) ''Content-Length'';
          h = Header_Set h ''Content-Type'' ''text/plain; charset=utf-8'';
          h = Header_Set h ''X-Content-Type-Options'' ''nosniff'';
          w = WriteHeader (w\<lparr>rwHeader := h\<rparr>) code
      in Write w (err @ [CHR 0x0A]))"

text \<open>
  \<open>http.Transport\<close>: the program sets its \<open>Proxy\<close> field only. A \<open>Proxy\<close> function returns
  an error, or the URL of the proxy to use, or \<open>None\<close> (\<open>nil\<close>) for no proxy.
\<close>

record Transport =
  TransportProxy :: "(Request \<Rightarrow> error + URL option) option"

text \<open>\<open>http.ProxyURL\<close>.\<close>

definition ProxyURL :: "URL \<Rightarrow> Request \<Rightarrow> error + URL option" where
  "ProxyURL fixedURL = (\<lambda>req. Inr (Some fixedURL))"

section \<open>Package logging\<close>

text \<open>
  What the program does to the outside, as far as the properties below need it: the
  records that the \<open>slog\<close> handler has written, and the exit code once \<open>os.Exit\<close> has
  ended the process.
\<close>

datatype attr_value = StringValue string | ErrorValue error

record log_record =
  recLevel :: int
  recMsg :: string
  recAttrs :: "(string \<times> attr_value) list"

record World =
  logged :: "log_record list"
  exited :: "int option"

definition os_Exit :: "int \<Rightarrow> World \<Rightarrow> World" where
  "os_Exit code w = w\<lparr>exited := Some code\<rparr>"

text \<open>
  A \<open>Logger\<close> wraps an \<open>slog.Logger\<close>, of which the model keeps the minimum level of the
  handler, and holds the function that \<open>Fatal\<close> calls to exit; \<open>logging.New\<close> sets it to
  \<open>os.Exit\<close>. The field \<open>closer\<close> is used by \<open>Close\<close> only.
\<close>

record Logger =
  handlerLevel :: int
  exitFunc :: "(int \<Rightarrow> World \<Rightarrow> World) option"

definition LevelInfo :: int where "LevelInfo = 0"
definition LevelWarn :: int where "LevelWarn = 4"
definition LevelError :: int where "LevelError = 8"

text \<open>\<open>slog.Logger.log\<close>: a record below the level of the handler is dropped.\<close>

definition slog_log ::
  "Logger \<Rightarrow> int \<Rightarrow> string \<Rightarrow> (string \<times> attr_value) list \<Rightarrow> World \<Rightarrow> World" where
  "slog_log l lvl msg args w =
     (if lvl \<ge> handlerLevel l
      then w\<lparr>logged := logged w @ [\<lparr>recLevel = lvl, recMsg = msg, recAttrs = args\<rparr>]\<rparr>
      else w)"


definition Logger_Error ::
  "Logger \<Rightarrow> string \<Rightarrow> (string \<times> attr_value) list \<Rightarrow> World \<Rightarrow> World" where
  "Logger_Error l msg args w = slog_log l LevelError msg args w"

text \<open>\<open>Logger.Fatal\<close>: logs at the level \<open>error\<close>, then exits with the code 1.\<close>

definition Logger_Fatal ::
  "Logger \<Rightarrow> string \<Rightarrow> (string \<times> attr_value) list \<Rightarrow> World \<Rightarrow> World" where
  "Logger_Fatal l msg args w =
     (let w = slog_log l LevelError msg args w in
      case exitFunc l of
        Some f \<Rightarrow> f 1 w
      | None \<Rightarrow> os_Exit 1 w)"

section \<open>Go net/url: \<open>URL.String\<close>\<close>

definition EscapedPath :: "URL \<Rightarrow> string" where
  "EscapedPath u =
     (if RawPath u \<noteq> [] \<and> validEncoded (RawPath u) encodePath
         \<and> unescape (RawPath u) encodePath = Inr (Path u) then RawPath u
      else if Path u = ''*'' then ''*''
      else escape (Path u) encodePath)"

definition EscapedFragment :: "URL \<Rightarrow> string" where
  "EscapedFragment u =
     (if RawFragment u \<noteq> [] \<and> validEncoded (RawFragment u) encodeFragment
         \<and> unescape (RawFragment u) encodeFragment = Inr (Fragment u) then RawFragment u
      else escape (Fragment u) encodeFragment)"

definition Userinfo_String :: "Userinfo \<Rightarrow> string" where
  "Userinfo_String u =
     escape (username u) encodeUserPassword
     @ (if passwordSet u then '':'' @ escape (password u) encodeUserPassword else [])"

text \<open>\<open>URL.String\<close>; \<open>buf\<close> is the text written so far.\<close>

definition URL_String :: "URL \<Rightarrow> string" where
  "URL_String u =
     (let buf = (if Scheme u \<noteq> [] then Scheme u @ '':'' else []);
          buf =
            (if Opaque u \<noteq> [] then buf @ Opaque u
             else
               (let buf =
                      (if Scheme u \<noteq> [] \<or> Host u \<noteq> [] \<or> User u \<noteq> None then
                         (if OmitHost u \<and> Host u = [] \<and> User u = None then buf
                          else
                            buf
                            @ (if Host u \<noteq> [] \<or> Path u \<noteq> [] \<or> User u \<noteq> None
                               then ''//'' else [])
                            @ (case User u of
                                 Some ui \<Rightarrow> Userinfo_String ui @ ''@''
                               | None \<Rightarrow> [])
                            @ (if Host u \<noteq> [] then escape (Host u) encodeHost else []))
                       else buf);
                    path = EscapedPath u;
                    buf = (if path \<noteq> [] \<and> hd path \<noteq> CHR ''/'' \<and> Host u \<noteq> []
                           then buf @ ''/'' else buf);
                    buf = (if buf = [] \<and> Contains (fst (Cut path ''/'')) '':''
                           then buf @ ''./'' else buf)
                in buf @ path));
          buf = (if ForceQuery u \<or> RawQuery u \<noteq> [] then buf @ ''?'' @ RawQuery u else buf);
          buf = (if Fragment u \<noteq> [] then buf @ ''#'' @ EscapedFragment u else buf)
      in buf)"

section \<open>Go net/http/httputil: the single-host reverse proxy\<close>

definition singleJoiningSlash :: "string \<Rightarrow> string \<Rightarrow> string" where
  "singleJoiningSlash a b =
     (let aslash = HasSuffix a ''/''; bslash = HasPrefix b ''/'' in
      if aslash \<and> bslash then a @ drop 1 b
      else if \<not> aslash \<and> \<not> bslash then a @ ''/'' @ b
      else a @ b)"

definition joinURLPath :: "URL \<Rightarrow> URL \<Rightarrow> string \<times> string" where
  "joinURLPath a b =
     (if RawPath a = [] \<and> RawPath b = [] then (singleJoiningSlash (Path a) (Path b), [])
      else
        (let apath = EscapedPath a; bpath = EscapedPath b;
             aslash = HasSuffix apath ''/''; bslash = HasPrefix bpath ''/'' in
         if aslash \<and> bslash then (Path a @ drop 1 (Path b), apath @ drop 1 bpath)
         else if \<not> aslash \<and> \<not> bslash then (Path a @ ''/'' @ Path b, apath @ ''/'' @ bpath)
         else (Path a @ Path b, apath @ bpath)))"

definition rewriteRequestURL :: "Request \<Rightarrow> URL \<Rightarrow> Request" where
  "rewriteRequestURL req target =
     (let targetQuery = RawQuery target;
          u = ReqURL req;
          (path, rawpath) = joinURLPath target u
      in req\<lparr>ReqURL := u\<lparr>Scheme := Scheme target, Host := Host target,
                 Path := path, RawPath := rawpath,
                 RawQuery := (if targetQuery = [] \<or> RawQuery u = []
                              then targetQuery @ RawQuery u
                              else targetQuery @ ''&'' @ RawQuery u)\<rparr>\<rparr>)"

text \<open>
  \<open>httputil.ReverseProxy\<close> with the fields that the program sets. \<open>Rewrite\<close> is \<open>nil\<close> in
  every proxy that \<open>NewSingleHostReverseProxy\<close> returns and the program never assigns
  it, so the record has no such field, and the branches of \<open>ServeHTTP\<close> that \<open>Rewrite\<close>
  guards are left out. An error handler changes the response writer and, through the
  logger it has captured, the log and the state of the process.
\<close>

type_synonym ErrorHandlerFunc =
  "ResponseWriter \<Rightarrow> Request \<Rightarrow> error \<Rightarrow> World \<Rightarrow> ResponseWriter \<times> World"

record ReverseProxy =
  Director :: "Request \<Rightarrow> Request"
  Transport :: "Transport option"
  ErrorHandler :: "ErrorHandlerFunc option"

definition NewSingleHostReverseProxy :: "URL \<Rightarrow> ReverseProxy" where
  "NewSingleHostReverseProxy target =
     \<lparr>Director = (\<lambda>req. rewriteRequestURL req target), Transport = None, ErrorHandler = None\<rparr>"

definition hopHeaders :: "string list" where
  "hopHeaders = [''Connection'', ''Proxy-Connection'', ''Keep-Alive'', ''Proxy-Authenticate'',
     ''Proxy-Authorization'', ''Te'', ''Trailer'', ''Transfer-Encoding'', ''Upgrade'']"

definition removeHopByHopHeaders :: "Header \<Rightarrow> Header" where
  "removeHopByHopHeaders h =
     (let h1 = fold (\<lambda>f h'.
                  fold (\<lambda>sf h''.
                     (let sf' = TrimString sf in
                      if sf' \<noteq> [] then Header_Del h'' sf' else h''))
                    (SplitByte f CHR '','') h')
                (Header_values h ''Connection'') h
      in fold (\<lambda>f h'. Header_Del h' f) hopHeaders h1)"

definition upgradeType :: "Header \<Rightarrow> string" where
  "upgradeType h =
     (if \<not> HeaderValuesContainsToken (Header_values h ''Connection'') ''Upgrade'' then []
      else Header_Get h ''Upgrade'')"

text \<open>\<open>strings.Join\<close>.\<close>

fun Join :: "string list \<Rightarrow> string \<Rightarrow> string" where
  "Join [] sep = []"
| "Join [x] sep = x"
| "Join (x # y # ys) sep = x @ sep @ Join (y # ys) sep"

text \<open>
  The block of \<open>ServeHTTP\<close> that appends the client address to \<open>X-Forwarded-For\<close>; it
  leaves the header out when the key is bound to the \<open>nil\<close> slice, and does nothing when
  \<open>RemoteAddr\<close> does not split into host and port.
\<close>

definition setXForwardedFor :: "Request \<Rightarrow> Header \<Rightarrow> Header" where
  "setXForwardedFor req h =
     (case SplitHostPort (RemoteAddr req) of
        Inl err \<Rightarrow> h
      | Inr (clientIP, port) \<Rightarrow>
          (let prior = Header_values h ''X-Forwarded-For'';
               omit = (h ''X-Forwarded-For'' = Some []);
               clientIP = (if length prior > 0
                           then Join prior '', '' @ '', '' @ clientIP
                           else clientIP)
           in if \<not> omit then Header_Set h ''X-Forwarded-For'' clientIP else h))"

text \<open>
  The first half of \<open>ReverseProxy.ServeHTTP\<close>: from the inbound request to the request
  that is handed to \<open>Transport.RoundTrip\<close>. The result is \<open>Inl reqUpType\<close> when the
  request asks to switch to a protocol whose name is not printable ASCII; no outbound
  request is made then.
\<close>

definition outgoingRequest :: "ReverseProxy \<Rightarrow> Request \<Rightarrow> string + Request" where
  "outgoingRequest p req =
     (let outreq = req;
          outreq = (if ContentLength req = 0 then outreq\<lparr>Body := None\<rparr> else outreq);
          outreq = Director p outreq;
          outreq = outreq\<lparr>Close := False\<rparr>;
          reqUpType = upgradeType (Header outreq)
      in
        if \<not> IsPrint reqUpType then Inl reqUpType
        else
          (let h = removeHopByHopHeaders (Header outreq);
               h = (if HeaderValuesContainsToken (Header_values (Header req) ''Te'') ''trailers''
                    then Header_Set h ''Te'' ''trailers'' else h);
               h = (if reqUpType \<noteq> []
                    then Header_Set (Header_Set h ''Connection'' ''Upgrade'') ''Upgrade'' reqUpType
                    else h);
               h = setXForwardedFor req h;
               h = (if h ''User-Agent'' = None then Header_Set h ''User-Agent'' [] else h)
           in Inr (outreq\<lparr>Header := h\<rparr>)))"

text \<open>
  \<open>defaultErrorHandler\<close> writes status 502; its log line goes to the logger of the
  standard library, not to the logger of the program.
\<close>

definition defaultErrorHandler :: ErrorHandlerFunc where
  "defaultErrorHandler rw req err w = (WriteHeader rw StatusBadGateway, w)"

definition getErrorHandler :: "ReverseProxy \<Rightarrow> ErrorHandlerFunc" where
  "getErrorHandler p = (case ErrorHandler p of Some h \<Rightarrow> h | None \<Rightarrow> defaultErrorHandler)"

text \<open>
  \<open>ReverseProxy.ServeHTTP\<close> up to the answer of the transport. Two things come from
  outside: \<open>roundTrip\<close> is what \<open>Transport.RoundTrip\<close> returns for an outbound request (the
  network), and \<open>Quote\<close> is \<open>strconv.Quote\<close>, which \<open>fmt\<close> applies for the verb \<open>%q\<close>. The
  error handler gets the inbound request when the upgrade is refused, and the outbound
  request when the round trip fails. When the transport returns a response, the result
  is \<open>RoundTripped\<close>; copying that response to the client is the second half of
  \<open>ServeHTTP\<close> and is not part of the model.
\<close>

datatype serve_result =
    ErrorHandled ResponseWriter
  | RoundTripped Response

definition ServeHTTP ::
  "(string \<Rightarrow> string) \<Rightarrow> (Transport option \<Rightarrow> Request \<Rightarrow> error + Response) \<Rightarrow> ReverseProxy
     \<Rightarrow> ResponseWriter \<Rightarrow> Request \<Rightarrow> World \<Rightarrow> serve_result \<times> World" where
  "ServeHTTP Quote roundTrip p rw req w =
     (case outgoingRequest p req of
        Inl reqUpType \<Rightarrow>
          (case getErrorHandler p rw req
                  (errorString (''client tried to switch to invalid protocol '' @ Quote reqUpType))
                  w of
             (rw', w') \<Rightarrow> (ErrorHandled rw', w'))
      | Inr outreq \<Rightarrow>
          (case roundTrip (Transport p) outreq of
             Inl err \<Rightarrow>
               (case getErrorHandler p rw outreq err w of
                  (rw', w') \<Rightarrow> (ErrorHandled rw', w'))
           | Inr res \<Rightarrow> (RoundTripped res, w)))"

text \<open>
  The server hands the requests it receives to the handler. Taken one after the other,
  each request is served in the state that the one before has left, and none is served
  once the process has exited.
\<close>

fun serveRequests ::
  "(string \<Rightarrow> string) \<Rightarrow> (Transport option \<Rightarrow> Request \<Rightarrow> error + Response) \<Rightarrow> ReverseProxy
     \<Rightarrow> (ResponseWriter \<times> Request) list \<Rightarrow> World \<Rightarrow> serve_result list \<times> World" where
  "serveRequests Quote roundTrip p [] w = ([], w)"
| "serveRequests Quote roundTrip p ((rw, req) # rest) w =
     (if exited w \<noteq> None then ([], w)
      else
        (case ServeHTTP Quote roundTrip p rw req w of
           (res, w') \<Rightarrow>
             (case serveRequests Quote roundTrip p rest w' of
                (ress, w'') \<Rightarrow> (res # ress, w''))))"

section \<open>Package prxy\<close>

text \<open>
  \<open>http.Server\<close>: the two fields that \<open>New\<close> sets, and the state that \<open>ListenAndServe\<close> and
  \<open>Shutdown\<close> keep in unexported fields: the flag \<open>inShutdown\<close> and the addresses of the
  tracked listeners.
\<close>

record Server =
  Addr :: string
  Handler :: ReverseProxy
  inShutdown :: bool
  listeners :: "string list"

record Prxy =
  logger :: Logger
  server :: Server

datatype new_error =
    InvalidTarget string url_Error   \<comment> \<open>"invalid target URL %q: %w"\<close>
  | InvalidProxy string url_Error    \<comment> \<open>"invalid proxy URL %q: %w"\<close>

definition New :: "Config \<Rightarrow> Logger \<Rightarrow> new_error + Prxy" where
  "New cfg lg =
     (case url_Parse (Target cfg) of
        Inl err \<Rightarrow> Inl (InvalidTarget (Target cfg) err)
      | Inr parsedTargetURL \<Rightarrow>
          (case url_Parse (Proxy cfg) of
             Inl err \<Rightarrow> Inl (InvalidProxy (Proxy cfg) err)
           | Inr parsedProxyURL \<Rightarrow>
               (let reverseProxyHandler = NewSingleHostReverseProxy parsedTargetURL;
                    transport = \<lparr>TransportProxy = Some (ProxyURL parsedProxyURL)\<rparr>;
                    reverseProxyHandler = reverseProxyHandler\<lparr>Transport := Some transport\<rparr>;
                    originalDirector = Director reverseProxyHandler;
                    reverseProxyHandler = reverseProxyHandler\<lparr>Director :=
                      (\<lambda>req. (originalDirector req)\<lparr>ReqHost := Host parsedTargetURL\<rparr>)\<rparr>;
                    reverseProxyHandler = reverseProxyHandler\<lparr>ErrorHandler := Some
                      (\<lambda>rw req err w.
                         (let w = Logger_Error lg ''Reverse proxy error''
                                    [(''url'', StringValue (URL_String (ReqURL req))),
                                     (''error'', ErrorValue err)] w
                          in (http_Error rw (''Proxy Error: '' @ Error err) StatusBadGateway,
                              w)))\<rparr>;
                    httpServer = \<lparr>Addr = JoinHostPort (ListenHost cfg) (Itoa (Port cfg)),
                                  Handler = reverseProxyHandler,
                                  inShutdown = False, listeners = []\<rparr>
                in Inr \<lparr>logger = lg, server = httpServer\<rparr>)))"

text \<open>\<open>Prxy.Addr\<close>.\<close>

definition Prxy_Addr :: "Prxy \<Rightarrow> string" where
  "Prxy_Addr s = Addr (server s)"

section \<open>Go net/http: \<open>Server.ListenAndServe\<close>, and \<open>Prxy.Run\<close>\<close>

text \<open>
  \<open>Run\<close> blocks in the accept loop of \<open>Server.Serve\<close>. What the loop sees is a list of
  events: a connection accepted; \<open>Accept\<close> failing with an error that is temporary or
  not; and \<open>Shutdown\<close> being called on the server from elsewhere, which sets \<open>inShutdown\<close>
  and closes the listeners, so that the pending \<open>Accept\<close> fails. When the events run out the loop is
  still waiting in \<open>Accept\<close>: the outcome is \<open>Blocked\<close>. A returned Go \<open>error\<close> is an
  option, \<open>None\<close> for \<open>nil\<close>.
\<close>

datatype serve_event =
    Accepted
  | AcceptFailed error bool
  | ShutdownCalled

datatype 'a outcome = Blocked | Returned 'a

fun Serve_loop :: "Server \<Rightarrow> serve_event list \<Rightarrow> error option outcome \<times> Server" where
  "Serve_loop srv [] = (Blocked, srv)"
| "Serve_loop srv (Accepted # es) = Serve_loop srv es"
| "Serve_loop srv (ShutdownCalled # es) =
     (Returned (Some ErrServerClosed), srv\<lparr>inShutdown := True\<rparr>)"
| "Serve_loop srv (AcceptFailed err temporary # es) =
     (if inShutdown srv then (Returned (Some ErrServerClosed), srv)
      else if temporary then Serve_loop srv es
      else (Returned (Some err), srv))"

text \<open>
  \<open>Server.Serve\<close> on a listener bound to the address \<open>ln\<close>: \<open>trackListener\<close> refuses when
  the server is shutting down, otherwise it records the listener. When the loop returns,
  the deferred \<open>trackListener(&l, false)\<close> removes the listener again.
\<close>

definition Serve :: "Server \<Rightarrow> string \<Rightarrow> serve_event list \<Rightarrow> error option outcome \<times> Server" where
  "Serve srv ln es =
     (if inShutdown srv then (Returned (Some ErrServerClosed), srv)
      else
        (case Serve_loop (srv\<lparr>listeners := ln # listeners srv\<rparr>) es of
           (Blocked, srv') \<Rightarrow> (Blocked, srv')
         | (Returned r, srv') \<Rightarrow>
             (Returned r, srv'\<lparr>listeners := remove1 ln (listeners srv')\<rparr>)))"

text \<open>
  \<open>Server.ListenAndServe\<close>; \<open>listen addr\<close> is the result of \<open>net.Listen("tcp", addr)\<close>: an
  error, or the address that the listener is bound to.
\<close>

definition ListenAndServe ::
  "Server \<Rightarrow> (string \<Rightarrow> error + string) \<Rightarrow> serve_event list \<Rightarrow> error option outcome \<times> Server" where
  "ListenAndServe srv listen es =
     (if inShutdown srv then (Returned (Some ErrServerClosed), srv)
      else
        (let addr = (if Addr srv = [] then '':http'' else Addr srv) in
         case listen addr of
           Inl err \<Rightarrow> (Returned (Some err), srv)
         | Inr ln \<Rightarrow> Serve srv ln es))"

text \<open>\<open>Prxy.Run\<close>; the second component is the proxy with the state of its server.\<close>

definition Run ::
  "Prxy \<Rightarrow> (string \<Rightarrow> error + string) \<Rightarrow> serve_event list \<Rightarrow> error option outcome \<times> Prxy" where
  "Run s listen es =
     (case ListenAndServe (server s) listen es of
        (r, srv) \<Rightarrow> (r, s\<lparr>server := srv\<rparr>))"

section \<open>Go net/http: \<open>Server.Shutdown\<close>, and \<open>Prxy.Shutdown\<close>\<close>

text \<open>
  A connection that the server tracks, as \<open>closeIdleConns\<close> reads it: its state and the
  Unix time, in seconds, at which it entered that state.
\<close>

datatype ConnState = StateNew | StateActive | StateIdle | StateHijacked | StateClosed










section \<open>Notions used to state the properties\<close>

text \<open>The request that \<open>ServeHTTP\<close> gives to the director: the clone of the inbound request.\<close>

definition cloned :: "Request \<Rightarrow> Request" where
  "cloned req = (if ContentLength req = 0 then req\<lparr>Body := None\<rparr> else req)"


section \<open>Example inputs\<close>

text \<open>
  A configuration whose target has a port, a base path that ends in a slash and a query
  of its own; a logger at level \<open>info\<close>; an inbound \<open>GET /some/path?q=1\<close> as the server
  parses it; and the same request asking for a protocol upgrade.
\<close>

definition exampleConfig :: Config where
  "exampleConfig = Defaults\<lparr>Target := ''http://example.internal:8080/api/?token=abc'',
     Proxy := ''http://127.0.0.1:25345''\<rparr>"

definition exampleLogger :: Logger where
  "exampleLogger = \<lparr>handlerLevel = LevelInfo, exitFunc = Some os_Exit\<rparr>"

definition exampleRequest :: Request where
  "exampleRequest =
     \<lparr>Method = ''GET'',
      ReqURL = new_URL\<lparr>Path := ''/some/path'', RawQuery := ''q=1''\<rparr>,
      Header = [''Accept'' \<mapsto> [''*/*''], ''Keep-Alive'' \<mapsto> [''timeout=5'']],
      Body = None, ContentLength = 0, TransferEncoding = [], Close = False,
      ReqHost = ''localhost:12345'', Trailer = Map.empty, RemoteAddr = ''127.0.0.1:50000''\<rparr>"


text \<open>
  An event after which the accept loop goes on: a connection, or a temporary failure of
  \<open>Accept\<close>.
\<close>

fun keepsServing :: "serve_event \<Rightarrow> bool" where
  "keepsServing Accepted = True"
| "keepsServing (AcceptFailed err temporary) = temporary"
| "keepsServing ShutdownCalled = False"


text \<open>
  A target whose base path ends in an escaped slash; the same inbound request with the
  path \<open>/b\<close>; and an inbound \<open>POST\<close> with a chunked body, as the server hands it to the
  handler: the \<open>Transfer-Encoding\<close> and \<open>Trailer\<close> of the request are in the fields of the
  request, not in its header map.
\<close>

definition escapedConfig :: Config where
  "escapedConfig = Defaults\<lparr>Target := ''http://h/a%2F'', Proxy := ''http://127.0.0.1:25345''\<rparr>"

definition shortRequest :: Request where
  "shortRequest = exampleRequest\<lparr>ReqURL := new_URL\<lparr>Path := ''/b''\<rparr>\<rparr>"

definition chunkedRequest :: Request where
  "chunkedRequest =
     exampleRequest\<lparr>Method := ''POST'', Body := Some ''hello'', ContentLength := - 1,
       TransferEncoding := [''chunked''], Trailer := [''X-Checksum'' \<mapsto> []]\<rparr>"

section \<open>What \<open>New\<close> builds\<close>

lemma New_Inr_iff:
  "New cfg lg = Inr p \<longleftrightarrow>
     (\<exists>t u. url_Parse (Target cfg) = Inr t \<and> url_Parse (Proxy cfg) = Inr u \<and>
        p = \<lparr>logger = lg,
             server = \<lparr>Addr = JoinHostPort (ListenHost cfg) (Itoa (Port cfg)),
               Handler = \<lparr>Director = (\<lambda>req. (rewriteRequestURL req t)\<lparr>ReqHost := Host t\<rparr>),
                 Transport = Some \<lparr>TransportProxy = Some (ProxyURL u)\<rparr>,
                 ErrorHandler = Some (\<lambda>rw req err w.
                    (http_Error rw (''Proxy Error: '' @ Error err) StatusBadGateway,
                     Logger_Error lg ''Reverse proxy error''
                       [(''url'', StringValue (URL_String (ReqURL req))),
                        (''error'', ErrorValue err)] w))\<rparr>,
               inShutdown = False, listeners = []\<rparr>\<rparr>)"
  by (auto simp: New_def Let_def NewSingleHostReverseProxy_def split: sum.splits)

lemma New_Director:
  assumes "New cfg lg = Inr p" and "url_Parse (Target cfg) = Inr t"
  shows "Director (Handler (server p)) req = (rewriteRequestURL req t)\<lparr>ReqHost := Host t\<rparr>"
  using assms by (auto simp: New_Inr_iff)

lemma New_Director_Header:
  assumes "New cfg lg = Inr p"
  shows "Header (Director (Handler (server p)) req) = Header req"
  using assms by (auto simp: New_Inr_iff rewriteRequestURL_def Let_def split: prod.splits)

lemma New_Director_fields:
  assumes "New cfg lg = Inr p"
  shows "TransferEncoding (Director (Handler (server p)) req) = TransferEncoding req"
    and "Trailer (Director (Handler (server p)) req) = Trailer req"
    and "Method (Director (Handler (server p)) req) = Method req"
  using assms by (auto simp: New_Inr_iff rewriteRequestURL_def Let_def split: prod.splits)

lemma New_Transport:
  assumes "New cfg lg = Inr p" and "url_Parse (Proxy cfg) = Inr u"
  shows "Transport (Handler (server p)) = Some \<lparr>TransportProxy = Some (ProxyURL u)\<rparr>"
  using assms by (auto simp: New_Inr_iff)

lemma New_ErrorHandler:
  assumes "New cfg lg = Inr p"
  shows "getErrorHandler (Handler (server p)) rw req err w =
           (http_Error rw (''Proxy Error: '' @ Error err) StatusBadGateway,
            Logger_Error lg ''Reverse proxy error''
              [(''url'', StringValue (URL_String (ReqURL req))), (''error'', ErrorValue err)] w)"
  using assms by (auto simp: New_Inr_iff getErrorHandler_def)

lemma New_Addr:
  assumes "New cfg lg = Inr p"
  shows "Addr (server p) = JoinHostPort (ListenHost cfg) (Itoa (Port cfg))"
    and "inShutdown (server p) = False" and "listeners (server p) = []"
  using assms by (auto simp: New_Inr_iff)

section \<open>The outbound request\<close>


lemma cloned_simps [simp]:
  "Header (cloned req) = Header req" "ReqURL (cloned req) = ReqURL req"
  "ReqHost (cloned req) = ReqHost req" "RemoteAddr (cloned req) = RemoteAddr req"
  "TransferEncoding (cloned req) = TransferEncoding req" "Trailer (cloned req) = Trailer req"
  "Method (cloned req) = Method req"
  by (simp_all add: cloned_def)

lemma outgoingRequest_Inr_iff:
  "(\<exists>outreq. outgoingRequest p req = Inr outreq) \<longleftrightarrow>
     IsPrint (upgradeType (Header (Director p (cloned req))))"
  by (auto simp: outgoingRequest_def cloned_def Let_def)

lemma outgoingRequest_Inr:
  assumes "outgoingRequest p req = Inr outreq"
  shows "ReqHost outreq = ReqHost (Director p (cloned req))"
    and "ReqURL outreq = ReqURL (Director p (cloned req))"
    and "TransferEncoding outreq = TransferEncoding (Director p (cloned req))"
    and "Trailer outreq = Trailer (Director p (cloned req))"
    and "Method outreq = Method (Director p (cloned req))"
    and "Close outreq = False"
  using assms by (auto simp: outgoingRequest_def cloned_def Let_def split: if_splits)


lemma Header_Set_apply:
  "Header_Set h k v k' = (if k' = CanonicalMIMEHeaderKey k then Some [v] else h k')"
  by (simp add: Header_Set_def)








lemma canonical_keys:
  "CanonicalMIMEHeaderKey ''Te'' = ''Te''"
  "CanonicalMIMEHeaderKey ''Connection'' = ''Connection''"
  "CanonicalMIMEHeaderKey ''Upgrade'' = ''Upgrade''"
  "CanonicalMIMEHeaderKey ''X-Forwarded-For'' = ''X-Forwarded-For''"
  "CanonicalMIMEHeaderKey ''User-Agent'' = ''User-Agent''"
  "CanonicalMIMEHeaderKey ''Content-Length'' = ''Content-Length''"
  "CanonicalMIMEHeaderKey ''Content-Type'' = ''Content-Type''"
  "CanonicalMIMEHeaderKey ''X-Content-Type-Options'' = ''X-Content-Type-Options''"
  by code_simp+




lemma New_succeeds:
  assumes "url_Parse (Target cfg) = Inr t" and "url_Parse (Proxy cfg) = Inr u"
  obtains p where "New cfg lg = Inr p"
  using assms by (auto simp: New_Inr_iff)

lemma New_outgoing_exists:
  assumes "New cfg lg = Inr p" and "IsPrint (upgradeType (Header req))"
  obtains outreq where "outgoingRequest (Handler (server p)) req = Inr outreq"
  using assms outgoingRequest_Inr_iff[of "Handler (server p)" req]
  by (auto simp: New_Director_Header)

section \<open>The example inputs, evaluated\<close>

lemma example_target:
  "url_Parse (Target exampleConfig) =
     Inr (new_URL\<lparr>Scheme := ''http'', Host := ''example.internal:8080'', Path := ''/api/'',
            RawQuery := ''token=abc''\<rparr>)"
  by code_simp

lemma example_proxy:
  "url_Parse (Proxy exampleConfig) =
     Inr (new_URL\<lparr>Scheme := ''http'', Host := ''127.0.0.1:25345''\<rparr>)"
  by code_simp

lemma example_request_plain: "upgradeType (Header exampleRequest) = []"
  by code_simp


lemma example_New:
  obtains p where "New exampleConfig exampleLogger = Inr p"
  using New_succeeds[OF example_target example_proxy] by blast

lemma example_outgoing:
  assumes "New exampleConfig exampleLogger = Inr p"
  obtains outreq where "outgoingRequest (Handler (server p)) exampleRequest = Inr outreq"
  using New_outgoing_exists[OF assms, of exampleRequest]
  by (auto simp: example_request_plain IsPrint_def)


lemma escaped_target:
  "url_Parse (Target escapedConfig) =
     Inr (new_URL\<lparr>Scheme := ''http'', Host := ''h'', Path := ''/a/'', RawPath := ''/a%2F''\<rparr>)"
  by code_simp

lemma escaped_proxy:
  "url_Parse (Proxy escapedConfig) =
     Inr (new_URL\<lparr>Scheme := ''http'', Host := ''127.0.0.1:25345''\<rparr>)"
  by code_simp

lemma escaped_New:
  obtains p where "New escapedConfig exampleLogger = Inr p"
  using New_succeeds[OF escaped_target escaped_proxy] by blast

lemma short_outgoing:
  assumes "New cfg lg = Inr p"
  obtains outreq where "outgoingRequest (Handler (server p)) shortRequest = Inr outreq"
proof -
  have "upgradeType (Header shortRequest) = []" by code_simp
  then have "IsPrint (upgradeType (Header shortRequest))" by (simp add: IsPrint_def)
  then show ?thesis
    using New_outgoing_exists[OF assms, of shortRequest] that by blast
qed

lemma chunked_outgoing:
  assumes "New cfg lg = Inr p"
  obtains outreq where "outgoingRequest (Handler (server p)) chunkedRequest = Inr outreq"
proof -
  have "upgradeType (Header chunkedRequest) = []" by code_simp
  then have "IsPrint (upgradeType (Header chunkedRequest))" by (simp add: IsPrint_def)
  then show ?thesis
    using New_outgoing_exists[OF assms, of chunkedRequest] that by blast
qed

section \<open>Configuration validation\<close>

lemma ValidateURL_None_iff:
  "ValidateURL rawURL = None \<longleftrightarrow>
     (\<exists>u. url_Parse rawURL = Inr u \<and> (Scheme u = ''http'' \<or> Scheme u = ''https'')
          \<and> Host u \<noteq> [])"
  by (auto simp: ValidateURL_def Let_def split: sum.splits)

lemma LoggingConfig_Validate_None_iff:
  "LoggingConfig_Validate cfg = None \<longleftrightarrow>
     Level cfg \<in> set ValidLogLevels \<and> Format cfg \<in> set ValidLogFormats
     \<and> Output cfg \<in> set ValidLogOutputs
     \<and> \<not> (Output cfg = LogOutputFile \<and> LogPath cfg = [])"
  by (auto simp: LoggingConfig_Validate_def LoggingConfig_errs_def Validate_def
           split: if_splits)

lemma validateConfig_None_iff:
  "validateConfig cfg = None \<longleftrightarrow>
     ValidateURL (Target cfg) = None \<and> ValidateURL (Proxy cfg) = None
     \<and> 0 \<le> Port cfg \<and> Port cfg \<le> 65535 \<and> LoggingConfig_Validate (Logging cfg) = None"
  by (auto simp: validateConfig_def split: option.splits)

text \<open>
  C8. Once koanf has loaded a configuration \<open>cfg\<close>, \<open>config.New\<close> returns the
  "invalid configuration" error exactly when the target URL fails \<open>ValidateURL\<close>, or the
  proxy URL fails it, or the port lies outside 0..65535, or \<open>LoggingConfig.Validate\<close>
  rejects the logging section; in every other case it returns \<open>cfg\<close> itself.
\<close>

theorem config_New_rejects_exactly_invalid:
  assumes "load = None" and "unmarshal Defaults = Inr cfg"
  shows "(ValidateURL (Target cfg) \<noteq> None \<or> ValidateURL (Proxy cfg) \<noteq> None
          \<or> Port cfg < 0 \<or> Port cfg > 65535
          \<or> LoggingConfig_Validate (Logging cfg) \<noteq> None
          \<longrightarrow> (\<exists>e. config_New load unmarshal = Inl (InvalidConfiguration e)))
       \<and> (\<not> (ValidateURL (Target cfg) \<noteq> None \<or> ValidateURL (Proxy cfg) \<noteq> None
          \<or> Port cfg < 0 \<or> Port cfg > 65535
          \<or> LoggingConfig_Validate (Logging cfg) \<noteq> None)
          \<longrightarrow> config_New load unmarshal = Inr cfg)"
  using assms by (auto simp: config_New_def validateConfig_def split: option.splits)

theorem config_New_rejects_exactly_invalid_witness:
  "config_New None (\<lambda>d. Inr (d\<lparr>Target := ''https://karakeep.my-homelab.tld'',
        Proxy := ''http://127.0.0.1:25345'', Port := 12345\<rparr>))
     = Inr (Defaults\<lparr>Target := ''https://karakeep.my-homelab.tld'',
        Proxy := ''http://127.0.0.1:25345'', Port := 12345\<rparr>)
   \<and> (\<exists>e. config_New None (\<lambda>d. Inr (d\<lparr>Target := ''ftp://example.com'',
        Proxy := ''http://127.0.0.1:25345'', Port := 12345\<rparr>))
     = Inl (InvalidConfiguration e))"
proof -
  let ?good = "Defaults\<lparr>Target := ''https://karakeep.my-homelab.tld'',
        Proxy := ''http://127.0.0.1:25345'', Port := 12345\<rparr>"
  let ?bad = "Defaults\<lparr>Target := ''ftp://example.com'',
        Proxy := ''http://127.0.0.1:25345'', Port := 12345\<rparr>"
  have g: "validateConfig ?good = None" by code_simp
  have b: "ValidateURL (Target ?bad) \<noteq> None" by code_simp
  have g': "\<not> (ValidateURL (Target ?good) \<noteq> None \<or> ValidateURL (Proxy ?good) \<noteq> None
          \<or> Port ?good < 0 \<or> Port ?good > 65535
          \<or> LoggingConfig_Validate (Logging ?good) \<noteq> None)"
    using g unfolding validateConfig_None_iff by simp
  show ?thesis
    using config_New_rejects_exactly_invalid
            [of None "\<lambda>d. Inr (d\<lparr>Target := ''https://karakeep.my-homelab.tld'',
               Proxy := ''http://127.0.0.1:25345'', Port := 12345\<rparr>)" ?good]
          config_New_rejects_exactly_invalid
            [of None "\<lambda>d. Inr (d\<lparr>Target := ''ftp://example.com'',
               Proxy := ''http://127.0.0.1:25345'', Port := 12345\<rparr>)" ?bad]
          g' b
    by simp
qed

section \<open>The \<open>Host\<close> header of the outbound request\<close>

text \<open>
  C1. For every inbound request that the handler built by \<open>New\<close> forwards, the \<open>Host\<close> of
  the outbound request is the host of the parsed target URL, with its port when the
  target URL has one, whatever the \<open>Host\<close> of the inbound request is.
\<close>

theorem New_rewrites_Host:
  assumes "New cfg lg = Inr p" and "url_Parse (Target cfg) = Inr target"
    and "outgoingRequest (Handler (server p)) req = Inr outreq"
  shows "ReqHost outreq = Host target"
  using outgoingRequest_Inr(1)[OF assms(3)] New_Director[OF assms(1,2)] by simp

theorem New_rewrites_Host_witness:
  "ReqHost exampleRequest = ''localhost:12345''
   \<and> ReqHost (projr (outgoingRequest
        (Handler (server (projr (New exampleConfig exampleLogger)))) exampleRequest))
     = ''example.internal:8080''"
proof -
  obtain p where p: "New exampleConfig exampleLogger = Inr p"
    by (rule example_New)
  obtain outreq where o: "outgoingRequest (Handler (server p)) exampleRequest = Inr outreq"
    by (rule example_outgoing[OF p])
  have "ReqHost outreq = ''example.internal:8080''"
    using New_rewrites_Host[OF p example_target o] by (simp add: new_URL_def)
  then show ?thesis
    using p o by (simp add: exampleRequest_def)
qed

section \<open>The outbound proxy\<close>

text \<open>
  C2. The transport of the handler built by \<open>New\<close> has a proxy-selection function, and
  for every request, whatever its scheme or destination, that function returns the
  parsed outbound proxy URL: never an error and never "no proxy".
\<close>

theorem New_transport_always_uses_proxy:
  assumes "New cfg lg = Inr p" and "url_Parse (Proxy cfg) = Inr proxyURL"
  shows "\<exists>f. Transport (Handler (server p)) = Some \<lparr>TransportProxy = Some f\<rparr>
           \<and> (\<forall>req. f req = Inr (Some proxyURL))"
  using New_Transport[OF assms] by (simp add: ProxyURL_def)

theorem New_transport_always_uses_proxy_witness:
  "\<exists>f. Transport (Handler (server (projr (New exampleConfig exampleLogger))))
          = Some \<lparr>TransportProxy = Some f\<rparr>
      \<and> f (exampleRequest\<lparr>ReqURL := (ReqURL exampleRequest)\<lparr>Scheme := ''http''\<rparr>\<rparr>)
          = Inr (Some (new_URL\<lparr>Scheme := ''http'', Host := ''127.0.0.1:25345''\<rparr>))
      \<and> f (exampleRequest\<lparr>ReqURL := (ReqURL exampleRequest)\<lparr>Scheme := ''https''\<rparr>\<rparr>)
          = Inr (Some (new_URL\<lparr>Scheme := ''http'', Host := ''127.0.0.1:25345''\<rparr>))"
proof -
  obtain p where p: "New exampleConfig exampleLogger = Inr p"
    by (rule example_New)
  show ?thesis
    using New_transport_always_uses_proxy[OF p example_proxy] p by auto
qed

section \<open>Path and query of the outbound request\<close>

lemma New_outgoing_URL:
  assumes "New cfg lg = Inr p" and "url_Parse (Target cfg) = Inr target"
    and "outgoingRequest (Handler (server p)) req = Inr outreq"
  shows "ReqURL outreq = ReqURL (rewriteRequestURL (cloned req) target)"
  using outgoingRequest_Inr(2)[OF assms(3)] New_Director[OF assms(1,2)] by simp

lemma rewriteRequestURL_Path:
  "Path (ReqURL (rewriteRequestURL req target)) = fst (joinURLPath target (ReqURL req))"
  by (simp add: rewriteRequestURL_def Let_def split: prod.splits)

lemma rewriteRequestURL_RawQuery:
  "RawQuery (ReqURL (rewriteRequestURL req target)) =
     (if RawQuery target = [] \<or> RawQuery (ReqURL req) = []
      then RawQuery target @ RawQuery (ReqURL req)
      else RawQuery target @ ''&'' @ RawQuery (ReqURL req))"
  by (simp add: rewriteRequestURL_def Let_def split: prod.splits)

lemma rewriteRequestURL_RawPath:
  "RawPath (ReqURL (rewriteRequestURL req target)) = snd (joinURLPath target (ReqURL req))"
  by (simp add: rewriteRequestURL_def Let_def split: prod.splits)

lemma joinURLPath_plain:
  assumes "RawPath a = []" and "RawPath b = []"
  shows "joinURLPath a b =
           (if HasSuffix (Path a) ''/'' \<and> HasPrefix (Path b) ''/'' then Path a @ drop 1 (Path b)
            else if \<not> HasSuffix (Path a) ''/'' \<and> \<not> HasPrefix (Path b) ''/''
              then Path a @ ''/'' @ Path b
            else Path a @ Path b, [])"
  using assms by (simp add: joinURLPath_def singleJoiningSlash_def Let_def)

lemma joinURLPath_escaped:
  assumes "RawPath a \<noteq> [] \<or> RawPath b \<noteq> []"
  shows "joinURLPath a b =
           (if HasSuffix (EscapedPath a) ''/'' \<and> HasPrefix (EscapedPath b) ''/''
              then (Path a @ drop 1 (Path b), EscapedPath a @ drop 1 (EscapedPath b))
            else if \<not> HasSuffix (EscapedPath a) ''/'' \<and> \<not> HasPrefix (EscapedPath b) ''/''
              then (Path a @ ''/'' @ Path b, EscapedPath a @ ''/'' @ EscapedPath b)
            else (Path a @ Path b, EscapedPath a @ EscapedPath b))"
  using assms by (auto simp: joinURLPath_def Let_def)

text \<open>
  C4, as the claim states it, fails: with the target \<open>http://example.internal:8080/api/?token=abc\<close>
  the inbound \<open>/some/path?q=1\<close> goes out with the path \<open>/api/some/path\<close>, which is not
  the concatenation \<open>/api//some/path\<close>, and with the query \<open>token=abc&q=1\<close>, which is not
  the inbound query.
\<close>

theorem outbound_path_query_counterexample:
  "Path (ReqURL (projr (outgoingRequest
      (Handler (server (projr (New exampleConfig exampleLogger)))) exampleRequest)))
     = ''/api/some/path''
   \<and> Path (projr (url_Parse (Target exampleConfig))) @ Path (ReqURL exampleRequest)
     = ''/api//some/path''
   \<and> RawQuery (ReqURL (projr (outgoingRequest
      (Handler (server (projr (New exampleConfig exampleLogger)))) exampleRequest)))
     = ''token=abc&q=1''
   \<and> RawQuery (ReqURL exampleRequest) = ''q=1''"
proof -
  obtain p where p: "New exampleConfig exampleLogger = Inr p"
    by (rule example_New)
  obtain outreq where o: "outgoingRequest (Handler (server p)) exampleRequest = Inr outreq"
    by (rule example_outgoing[OF p])
  have u: "ReqURL outreq = ReqURL (rewriteRequestURL (cloned exampleRequest)
             (new_URL\<lparr>Scheme := ''http'', Host := ''example.internal:8080'', Path := ''/api/'',
                RawQuery := ''token=abc''\<rparr>))"
    by (rule New_outgoing_URL[OF p example_target o])
  have "Path (ReqURL outreq) = ''/api/some/path''"
    unfolding u by code_simp
  moreover have "RawQuery (ReqURL outreq) = ''token=abc&q=1''"
    unfolding u by code_simp
  moreover have "Path (projr (url_Parse (Target exampleConfig))) @ Path (ReqURL exampleRequest)
     = ''/api//some/path''"
    unfolding example_target by code_simp
  moreover have "RawQuery (ReqURL exampleRequest) = ''q=1''"
    by code_simp
  ultimately show ?thesis
    using p o by simp
qed

text \<open>
  C4, amended. The outbound path is the base path of the target followed by the inbound
  path, with the slash at the joint adjusted: when both sides supply it, the one of the
  inbound path is dropped; when neither does, one is inserted; when exactly one does, the
  two paths are concatenated as they are. Which side supplies a slash is read from the
  paths themselves when neither URL has an escaped path of its own (\<open>RawPath\<close>), and the
  outbound URL has none either; otherwise it is read from the escaped paths, and the
  escaped paths are joined in the same way into the outbound \<open>RawPath\<close>. The outbound
  query is the query of the target followed by the inbound query, with \<open>&\<close> between them
  when neither is empty; so the inbound query goes out unchanged when the target URL has
  no query of its own.
\<close>

theorem New_joins_path_and_query:
  assumes "New cfg lg = Inr p" and "url_Parse (Target cfg) = Inr target"
    and "outgoingRequest (Handler (server p)) req = Inr outreq"
  shows "(RawPath target = [] \<and> RawPath (ReqURL req) = [] \<longrightarrow>
            RawPath (ReqURL outreq) = []
          \<and> (HasSuffix (Path target) ''/'' \<and> HasPrefix (Path (ReqURL req)) ''/'' \<longrightarrow>
               Path (ReqURL outreq) = Path target @ drop 1 (Path (ReqURL req)))
          \<and> (\<not> HasSuffix (Path target) ''/'' \<and> \<not> HasPrefix (Path (ReqURL req)) ''/'' \<longrightarrow>
               Path (ReqURL outreq) = Path target @ ''/'' @ Path (ReqURL req))
          \<and> (HasSuffix (Path target) ''/'' \<noteq> HasPrefix (Path (ReqURL req)) ''/'' \<longrightarrow>
               Path (ReqURL outreq) = Path target @ Path (ReqURL req)))
       \<and> (RawPath target \<noteq> [] \<or> RawPath (ReqURL req) \<noteq> [] \<longrightarrow>
            (HasSuffix (EscapedPath target) ''/'' \<and> HasPrefix (EscapedPath (ReqURL req)) ''/'' \<longrightarrow>
               Path (ReqURL outreq) = Path target @ drop 1 (Path (ReqURL req))
             \<and> RawPath (ReqURL outreq)
                 = EscapedPath target @ drop 1 (EscapedPath (ReqURL req)))
          \<and> (\<not> HasSuffix (EscapedPath target) ''/''
               \<and> \<not> HasPrefix (EscapedPath (ReqURL req)) ''/'' \<longrightarrow>
               Path (ReqURL outreq) = Path target @ ''/'' @ Path (ReqURL req)
             \<and> RawPath (ReqURL outreq)
                 = EscapedPath target @ ''/'' @ EscapedPath (ReqURL req))
          \<and> (HasSuffix (EscapedPath target) ''/''
                \<noteq> HasPrefix (EscapedPath (ReqURL req)) ''/'' \<longrightarrow>
               Path (ReqURL outreq) = Path target @ Path (ReqURL req)
             \<and> RawPath (ReqURL outreq) = EscapedPath target @ EscapedPath (ReqURL req)))
       \<and> (RawQuery target = [] \<or> RawQuery (ReqURL req) = [] \<longrightarrow>
            RawQuery (ReqURL outreq) = RawQuery target @ RawQuery (ReqURL req))
       \<and> (RawQuery target \<noteq> [] \<and> RawQuery (ReqURL req) \<noteq> [] \<longrightarrow>
            RawQuery (ReqURL outreq) = RawQuery target @ ''&'' @ RawQuery (ReqURL req))"
proof -
  have u: "ReqURL outreq = ReqURL (rewriteRequestURL (cloned req) target)"
    by (rule New_outgoing_URL[OF assms])
  have path: "Path (ReqURL outreq) = fst (joinURLPath target (ReqURL req))"
    unfolding u by (simp add: rewriteRequestURL_Path)
  have rawpath: "RawPath (ReqURL outreq) = snd (joinURLPath target (ReqURL req))"
    unfolding u by (simp add: rewriteRequestURL_RawPath)
  have query: "RawQuery (ReqURL outreq) =
            (if RawQuery target = [] \<or> RawQuery (ReqURL req) = []
             then RawQuery target @ RawQuery (ReqURL req)
             else RawQuery target @ ''&'' @ RawQuery (ReqURL req))"
    unfolding u by (simp add: rewriteRequestURL_RawQuery)
  have plain: "RawPath target = [] \<and> RawPath (ReqURL req) = [] \<longrightarrow>
            RawPath (ReqURL outreq) = []
          \<and> (HasSuffix (Path target) ''/'' \<and> HasPrefix (Path (ReqURL req)) ''/'' \<longrightarrow>
               Path (ReqURL outreq) = Path target @ drop 1 (Path (ReqURL req)))
          \<and> (\<not> HasSuffix (Path target) ''/'' \<and> \<not> HasPrefix (Path (ReqURL req)) ''/'' \<longrightarrow>
               Path (ReqURL outreq) = Path target @ ''/'' @ Path (ReqURL req))
          \<and> (HasSuffix (Path target) ''/'' \<noteq> HasPrefix (Path (ReqURL req)) ''/'' \<longrightarrow>
               Path (ReqURL outreq) = Path target @ Path (ReqURL req))"
  proof (intro impI, elim conjE)
    assume a: "RawPath target = []" and b: "RawPath (ReqURL req) = []"
    show "RawPath (ReqURL outreq) = []
          \<and> (HasSuffix (Path target) ''/'' \<and> HasPrefix (Path (ReqURL req)) ''/'' \<longrightarrow>
               Path (ReqURL outreq) = Path target @ drop 1 (Path (ReqURL req)))
          \<and> (\<not> HasSuffix (Path target) ''/'' \<and> \<not> HasPrefix (Path (ReqURL req)) ''/'' \<longrightarrow>
               Path (ReqURL outreq) = Path target @ ''/'' @ Path (ReqURL req))
          \<and> (HasSuffix (Path target) ''/'' \<noteq> HasPrefix (Path (ReqURL req)) ''/'' \<longrightarrow>
               Path (ReqURL outreq) = Path target @ Path (ReqURL req))"
      unfolding path rawpath joinURLPath_plain[OF a b] by auto
  qed
  have escaped: "RawPath target \<noteq> [] \<or> RawPath (ReqURL req) \<noteq> [] \<longrightarrow>
            (HasSuffix (EscapedPath target) ''/'' \<and> HasPrefix (EscapedPath (ReqURL req)) ''/'' \<longrightarrow>
               Path (ReqURL outreq) = Path target @ drop 1 (Path (ReqURL req))
             \<and> RawPath (ReqURL outreq)
                 = EscapedPath target @ drop 1 (EscapedPath (ReqURL req)))
          \<and> (\<not> HasSuffix (EscapedPath target) ''/''
               \<and> \<not> HasPrefix (EscapedPath (ReqURL req)) ''/'' \<longrightarrow>
               Path (ReqURL outreq) = Path target @ ''/'' @ Path (ReqURL req)
             \<and> RawPath (ReqURL outreq)
                 = EscapedPath target @ ''/'' @ EscapedPath (ReqURL req))
          \<and> (HasSuffix (EscapedPath target) ''/''
                \<noteq> HasPrefix (EscapedPath (ReqURL req)) ''/'' \<longrightarrow>
               Path (ReqURL outreq) = Path target @ Path (ReqURL req)
             \<and> RawPath (ReqURL outreq) = EscapedPath target @ EscapedPath (ReqURL req))"
  proof (intro impI)
    assume a: "RawPath target \<noteq> [] \<or> RawPath (ReqURL req) \<noteq> []"
    show "(HasSuffix (EscapedPath target) ''/'' \<and> HasPrefix (EscapedPath (ReqURL req)) ''/'' \<longrightarrow>
               Path (ReqURL outreq) = Path target @ drop 1 (Path (ReqURL req))
             \<and> RawPath (ReqURL outreq)
                 = EscapedPath target @ drop 1 (EscapedPath (ReqURL req)))
          \<and> (\<not> HasSuffix (EscapedPath target) ''/''
               \<and> \<not> HasPrefix (EscapedPath (ReqURL req)) ''/'' \<longrightarrow>
               Path (ReqURL outreq) = Path target @ ''/'' @ Path (ReqURL req)
             \<and> RawPath (ReqURL outreq)
                 = EscapedPath target @ ''/'' @ EscapedPath (ReqURL req))
          \<and> (HasSuffix (EscapedPath target) ''/''
                \<noteq> HasPrefix (EscapedPath (ReqURL req)) ''/'' \<longrightarrow>
               Path (ReqURL outreq) = Path target @ Path (ReqURL req)
             \<and> RawPath (ReqURL outreq) = EscapedPath target @ EscapedPath (ReqURL req))"
      unfolding path rawpath joinURLPath_escaped[OF a] by auto
  qed
  show ?thesis
    using plain escaped query by simp
qed

theorem New_joins_path_and_query_witness:
  "Path (ReqURL (projr (outgoingRequest
      (Handler (server (projr (New exampleConfig exampleLogger)))) exampleRequest)))
     = ''/api/'' @ drop 1 ''/some/path''
   \<and> RawQuery (ReqURL (projr (outgoingRequest
      (Handler (server (projr (New exampleConfig exampleLogger)))) exampleRequest)))
     = ''token=abc'' @ ''&'' @ ''q=1''
   \<and> Path (ReqURL (projr (outgoingRequest
      (Handler (server (projr (New escapedConfig exampleLogger)))) shortRequest)))
     = ''/a/'' @ ''/b''
   \<and> RawPath (ReqURL (projr (outgoingRequest
      (Handler (server (projr (New escapedConfig exampleLogger)))) shortRequest)))
     = ''/a%2F'' @ ''/b''
   \<and> RawQuery (ReqURL (projr (outgoingRequest
      (Handler (server (projr (New escapedConfig exampleLogger)))) shortRequest)))
     = []"
proof -
  obtain p where p: "New exampleConfig exampleLogger = Inr p"
    by (rule example_New)
  obtain outreq where o: "outgoingRequest (Handler (server p)) exampleRequest = Inr outreq"
    by (rule example_outgoing[OF p])
  obtain q where q: "New escapedConfig exampleLogger = Inr q"
    by (rule escaped_New)
  obtain outreq' where o': "outgoingRequest (Handler (server q)) shortRequest = Inr outreq'"
    by (rule short_outgoing[OF q])
  let ?t = "new_URL\<lparr>Scheme := ''http'', Host := ''example.internal:8080'', Path := ''/api/'',
            RawQuery := ''token=abc''\<rparr>"
  let ?e = "new_URL\<lparr>Scheme := ''http'', Host := ''h'', Path := ''/a/'', RawPath := ''/a%2F''\<rparr>"
  have r: "RawPath ?t = []" "RawPath (ReqURL exampleRequest) = []"
    "HasSuffix (Path ?t) ''/''" "HasPrefix (Path (ReqURL exampleRequest)) ''/''"
    "Path ?t = ''/api/''" "Path (ReqURL exampleRequest) = ''/some/path''"
    "RawQuery ?t = ''token=abc''" "RawQuery (ReqURL exampleRequest) = ''q=1''"
    by code_simp+
  have s: "RawPath ?e \<noteq> []" "EscapedPath ?e = ''/a%2F''" "EscapedPath (ReqURL shortRequest) = ''/b''"
    "\<not> HasSuffix ''/a%2F'' ''/''" "HasPrefix ''/b'' ''/''"
    "Path ?e = ''/a/''" "Path (ReqURL shortRequest) = ''/b''"
    "RawQuery ?e = []" "RawQuery (ReqURL shortRequest) = []"
    by code_simp+
  note j = New_joins_path_and_query[OF p example_target o]
  note k = New_joins_path_and_query[OF q escaped_target o']
  have 1: "Path (ReqURL outreq) = ''/api/'' @ drop 1 ''/some/path''"
    using j[THEN conjunct1] r by simp
  have 2: "RawQuery (ReqURL outreq) = ''token=abc'' @ ''&'' @ ''q=1''"
    using j[THEN conjunct2, THEN conjunct2, THEN conjunct2] r by simp
  have 3: "Path (ReqURL outreq') = ''/a/'' @ ''/b''
           \<and> RawPath (ReqURL outreq') = ''/a%2F'' @ ''/b''"
    using k[THEN conjunct2, THEN conjunct1] s by simp
  have 4: "RawQuery (ReqURL outreq') = []"
    using k[THEN conjunct2, THEN conjunct2, THEN conjunct1] s by simp
  show ?thesis
    using 1 2 3 4 p o q o' by simp
qed

section \<open>Which URLs \<open>New\<close> rejects\<close>

text \<open>
  C5, as the claim states it, fails: \<open>New\<close> accepts the empty string (the target and the
  proxy of \<open>Defaults\<close>), a URL with the scheme \<open>ftp\<close> and a URL with no host, all of which
  \<open>ValidateURL\<close> rejects, and builds a handler for them.
\<close>

theorem New_accepts_malformed_counterexample:
  "\<not> isl (New Defaults exampleLogger)
   \<and> \<not> isl (New (Defaults\<lparr>Target := ''ftp://example.com'', Proxy := ''http://''\<rparr>) exampleLogger)
   \<and> Target Defaults = [] \<and> Proxy Defaults = []
   \<and> ValidateURL [] \<noteq> None \<and> ValidateURL ''ftp://example.com'' \<noteq> None
   \<and> ValidateURL ''http://'' \<noteq> None"
proof -
  have e: "url_Parse [] = Inr new_URL" by code_simp
  have f: "url_Parse ''ftp://example.com'' = Inr (new_URL\<lparr>Scheme := ''ftp'', Host := ''example.com''\<rparr>)"
    by code_simp
  have h: "url_Parse ''http://'' = Inr (new_URL\<lparr>Scheme := ''http''\<rparr>)"
    by code_simp
  have d: "Target Defaults = []" "Proxy Defaults = []"
    by (simp_all add: Defaults_def)
  obtain p where p: "New Defaults exampleLogger = Inr p"
    using New_succeeds[of Defaults new_URL new_URL exampleLogger] e d by auto
  obtain q where q: "New (Defaults\<lparr>Target := ''ftp://example.com'', Proxy := ''http://''\<rparr>)
                       exampleLogger = Inr q"
    using New_succeeds[of "Defaults\<lparr>Target := ''ftp://example.com'', Proxy := ''http://''\<rparr>"
            "new_URL\<lparr>Scheme := ''ftp'', Host := ''example.com''\<rparr>"
            "new_URL\<lparr>Scheme := ''http''\<rparr>" exampleLogger] f h
    by auto
  have v: "ValidateURL [] \<noteq> None" "ValidateURL ''ftp://example.com'' \<noteq> None"
    "ValidateURL ''http://'' \<noteq> None"
    by (simp_all add: ValidateURL_None_iff e f h new_URL_def)
  show ?thesis
    using p q d v by simp
qed

text \<open>
  C5, amended. \<open>New\<close> fails, and creates no handler, exactly for the target or proxy
  strings that \<open>url.Parse\<close> cannot parse. When the target does not parse, the error is
  "invalid target URL" with the target string and the error of \<open>url.Parse\<close>; when the
  target parses and the proxy does not, it is "invalid proxy URL" with the proxy string
  and the error of \<open>url.Parse\<close>; when both parse, \<open>New\<close> returns a proxy.
\<close>

theorem New_fails_iff_unparsable:
  "(\<forall>e. url_Parse (Target cfg) = Inl e \<longrightarrow> New cfg lg = Inl (InvalidTarget (Target cfg) e))
   \<and> (\<forall>t e. url_Parse (Target cfg) = Inr t \<and> url_Parse (Proxy cfg) = Inl e
         \<longrightarrow> New cfg lg = Inl (InvalidProxy (Proxy cfg) e))
   \<and> (\<forall>t u. url_Parse (Target cfg) = Inr t \<and> url_Parse (Proxy cfg) = Inr u
         \<longrightarrow> (\<exists>p. New cfg lg = Inr p))"
  by (auto simp: New_def Let_def split: sum.splits)

theorem New_fails_iff_unparsable_witness:
  "New (exampleConfig\<lparr>Target := ''://leading.colon.com''\<rparr>) exampleLogger
     = Inl (InvalidTarget ''://leading.colon.com''
             (url_Error ''parse'' ''://leading.colon.com'' MissingProtocolScheme))
   \<and> New (exampleConfig\<lparr>Proxy := ''http://exa mple.com''\<rparr>) exampleLogger
     = Inl (InvalidProxy ''http://exa mple.com''
             (url_Error ''parse'' ''http://exa mple.com'' (InvalidHostError '' '')))
   \<and> \<not> isl (New exampleConfig exampleLogger)"
proof -
  have a: "url_Parse ''://leading.colon.com''
             = Inl (url_Error ''parse'' ''://leading.colon.com'' MissingProtocolScheme)"
    by code_simp
  have b: "url_Parse ''http://exa mple.com''
             = Inl (url_Error ''parse'' ''http://exa mple.com'' (InvalidHostError '' ''))"
    by code_simp
  have t: "Target (exampleConfig\<lparr>Proxy := ''http://exa mple.com''\<rparr>) = Target exampleConfig"
    by simp
  note n1 = New_fails_iff_unparsable
              [of "exampleConfig\<lparr>Target := ''://leading.colon.com''\<rparr>" exampleLogger,
               THEN conjunct1, rule_format, of
               "url_Error ''parse'' ''://leading.colon.com'' MissingProtocolScheme"]
  note n2 = New_fails_iff_unparsable
              [of "exampleConfig\<lparr>Proxy := ''http://exa mple.com''\<rparr>" exampleLogger,
               THEN conjunct2, THEN conjunct1, rule_format, of _
               "url_Error ''parse'' ''http://exa mple.com'' (InvalidHostError '' '')"]
  note n3 = New_fails_iff_unparsable
              [of exampleConfig exampleLogger, THEN conjunct2, THEN conjunct2, rule_format,
               OF conjI, OF example_target example_proxy]
  have 1: "New (exampleConfig\<lparr>Target := ''://leading.colon.com''\<rparr>) exampleLogger
     = Inl (InvalidTarget ''://leading.colon.com''
             (url_Error ''parse'' ''://leading.colon.com'' MissingProtocolScheme))"
    using n1 a by simp
  have 2: "New (exampleConfig\<lparr>Proxy := ''http://exa mple.com''\<rparr>) exampleLogger
     = Inl (InvalidProxy ''http://exa mple.com''
             (url_Error ''parse'' ''http://exa mple.com'' (InvalidHostError '' '')))"
    using n2[of "new_URL\<lparr>Scheme := ''http'', Host := ''example.internal:8080'', Path := ''/api/'',
            RawQuery := ''token=abc''\<rparr>"] b example_target t
    by simp
  have 3: "\<not> isl (New exampleConfig exampleLogger)"
    using n3 by auto
  show ?thesis
    using 1 2 3 by simp
qed

section \<open>\<open>Addr\<close> and \<open>Run\<close>\<close>

lemma Serve_loop_Addr: "Addr (snd (Serve_loop srv es)) = Addr srv"
  by (induction srv es rule: Serve_loop.induct) auto

lemma Serve_Addr: "Addr (snd (Serve srv ln es)) = Addr srv"
  using Serve_loop_Addr[of "srv\<lparr>listeners := ln # listeners srv\<rparr>" es]
  by (auto simp: Serve_def split: prod.splits outcome.splits)

lemma ListenAndServe_Addr: "Addr (snd (ListenAndServe srv listen es)) = Addr srv"
  by (simp add: ListenAndServe_def Let_def Serve_Addr split: sum.splits)

lemma Run_fst: "fst (Run s listen es) = fst (ListenAndServe (server s) listen es)"
  by (simp add: Run_def split: prod.splits)

lemma Run_snd: "server (snd (Run s listen es)) = snd (ListenAndServe (server s) listen es)"
  by (simp add: Run_def split: prod.splits)

lemma Run_Addr: "Prxy_Addr (snd (Run s listen es)) = Prxy_Addr s"
  by (simp add: Prxy_Addr_def Run_snd ListenAndServe_Addr)

lemma ListenAndServe_serving:
  assumes "\<not> inShutdown srv"
    and "listen (if Addr srv = [] then '':http'' else Addr srv) = Inr ln"
  shows "fst (ListenAndServe srv listen es)
           = fst (Serve_loop (srv\<lparr>listeners := ln # listeners srv\<rparr>) es)"
  using assms
  by (simp add: ListenAndServe_def Serve_def Let_def split: prod.splits outcome.splits)

text \<open>
  C6: the code at the failing input. With the default host \<open>localhost\<close> and the default
  port 0, \<open>Addr\<close> returns \<open>localhost:0\<close> before \<open>Run\<close>, not the empty string; and while
  \<open>Run\<close> is blocked in the accept loop, on a listener that the system bound to
  \<open>127.0.0.1:40123\<close>, \<open>Addr\<close> still returns \<open>localhost:0\<close>, with the port 0.
\<close>

theorem Addr_returns_configured_address:
  "Prxy_Addr (projr (New exampleConfig exampleLogger)) = ''localhost:0''
   \<and> fst (Run (projr (New exampleConfig exampleLogger))
              (\<lambda>addr. Inr ''127.0.0.1:40123'') [Accepted]) = Blocked
   \<and> listeners (server (snd (Run (projr (New exampleConfig exampleLogger))
              (\<lambda>addr. Inr ''127.0.0.1:40123'') [Accepted]))) = [''127.0.0.1:40123'']
   \<and> Prxy_Addr (snd (Run (projr (New exampleConfig exampleLogger))
              (\<lambda>addr. Inr ''127.0.0.1:40123'') [Accepted])) = ''localhost:0''"
proof -
  obtain p where p: "New exampleConfig exampleLogger = Inr p"
    by (rule example_New)
  have j: "JoinHostPort (ListenHost exampleConfig) (Itoa (Port exampleConfig)) = ''localhost:0''"
    by code_simp
  have a: "Prxy_Addr p = ''localhost:0''"
    using New_Addr(1)[OF p] j by (simp add: Prxy_Addr_def)
  have r: "Run p (\<lambda>addr. Inr ''127.0.0.1:40123'') [Accepted]
             = (Blocked, p\<lparr>server := (server p)\<lparr>listeners := [''127.0.0.1:40123'']\<rparr>\<rparr>)"
    using New_Addr(2,3)[OF p]
    by (simp add: Run_def ListenAndServe_def Serve_def Let_def)
  show ?thesis
    using p a r by (simp add: Prxy_Addr_def)
qed

lemma Serve_loop_non_nil:
  "Serve_loop srv es = (Returned r, srv') \<Longrightarrow> r \<noteq> None"
  by (induction srv es rule: Serve_loop.induct) (auto split: if_splits)

lemma Serve_loop_shutdown:
  "list_all keepsServing pre \<Longrightarrow>
     fst (Serve_loop srv (pre @ ShutdownCalled # post)) = Returned (Some ErrServerClosed)"
  by (induction srv pre rule: Serve_loop.induct) auto

lemma Serve_loop_failure:
  "list_all keepsServing pre \<Longrightarrow> \<not> inShutdown srv \<Longrightarrow>
     fst (Serve_loop srv (pre @ AcceptFailed err False # post)) = Returned (Some err)"
  by (induction srv pre rule: Serve_loop.induct) auto

lemma Serve_loop_blocked:
  "list_all keepsServing es \<Longrightarrow> \<not> inShutdown srv \<Longrightarrow> fst (Serve_loop srv es) = Blocked"
  by (induction srv es rule: Serve_loop.induct) auto

text \<open>
  C10. Whenever \<open>Run\<close> returns, the error it returns is not \<open>nil\<close>. It returns: the
  error of \<open>net.Listen\<close> when the listener cannot be created; \<open>http.ErrServerClosed\<close> when
  \<open>Shutdown\<close> has been called before \<open>Run\<close>, or is called while the server accepts
  connections; and the error of \<open>Accept\<close> when \<open>Accept\<close> fails for good while no shutdown
  is under way. Until one of these happens \<open>Run\<close> does not return.
\<close>

theorem Run_returns_non_nil_error:
  "(\<forall>r s'. Run s listen es = (Returned r, s') \<longrightarrow> r \<noteq> None)
   \<and> (inShutdown (server s) \<longrightarrow> fst (Run s listen es) = Returned (Some ErrServerClosed))
   \<and> (\<not> inShutdown (server s)
        \<and> listen (if Addr (server s) = [] then '':http'' else Addr (server s)) = Inl err
        \<longrightarrow> fst (Run s listen es) = Returned (Some err))
   \<and> (\<not> inShutdown (server s)
        \<and> listen (if Addr (server s) = [] then '':http'' else Addr (server s)) = Inr ln
        \<and> list_all keepsServing pre
        \<longrightarrow> fst (Run s listen (pre @ ShutdownCalled # post)) = Returned (Some ErrServerClosed)
          \<and> fst (Run s listen (pre @ AcceptFailed err False # post)) = Returned (Some err)
          \<and> fst (Run s listen pre) = Blocked)"
proof -
  have 1: "\<forall>r s'. Run s listen es = (Returned r, s') \<longrightarrow> r \<noteq> None"
    by (auto simp: Run_def ListenAndServe_def Serve_def Let_def
             split: prod.splits sum.splits if_splits outcome.splits dest: Serve_loop_non_nil)
  have 2: "inShutdown (server s) \<longrightarrow> fst (Run s listen es) = Returned (Some ErrServerClosed)"
    by (simp add: Run_def ListenAndServe_def)
  have 3: "\<not> inShutdown (server s)
        \<and> listen (if Addr (server s) = [] then '':http'' else Addr (server s)) = Inl err
        \<longrightarrow> fst (Run s listen es) = Returned (Some err)"
    by (simp add: Run_def ListenAndServe_def Let_def)
  have 4: "\<not> inShutdown (server s)
        \<and> listen (if Addr (server s) = [] then '':http'' else Addr (server s)) = Inr ln
        \<and> list_all keepsServing pre
        \<longrightarrow> fst (Run s listen (pre @ ShutdownCalled # post)) = Returned (Some ErrServerClosed)
          \<and> fst (Run s listen (pre @ AcceptFailed err False # post)) = Returned (Some err)
          \<and> fst (Run s listen pre) = Blocked"
  proof (intro impI, elim conjE)
    assume a: "\<not> inShutdown (server s)"
      and b: "listen (if Addr (server s) = [] then '':http'' else Addr (server s)) = Inr ln"
      and c: "list_all keepsServing pre"
    have d: "\<not> inShutdown (server s\<lparr>listeners := ln # listeners (server s)\<rparr>)"
      using a by simp
    show "fst (Run s listen (pre @ ShutdownCalled # post)) = Returned (Some ErrServerClosed)
          \<and> fst (Run s listen (pre @ AcceptFailed err False # post)) = Returned (Some err)
          \<and> fst (Run s listen pre) = Blocked"
      unfolding Run_fst ListenAndServe_serving[of "server s" listen ln, OF a b]
      using Serve_loop_shutdown[OF c] Serve_loop_failure[OF c d] Serve_loop_blocked[OF c d]
      by simp
  qed
  show ?thesis
    using 1 2 3 4 by blast
qed

theorem Run_returns_non_nil_error_witness:
  "fst (Run (projr (New exampleConfig exampleLogger)) (\<lambda>addr. Inr ''127.0.0.1:40123'')
          ([Accepted, AcceptFailed (errorString ''too many open files'') True, Accepted]
           @ ShutdownCalled # []))
     = Returned (Some ErrServerClosed)
   \<and> fst (Run (projr (New exampleConfig exampleLogger)) (\<lambda>addr. Inr ''127.0.0.1:40123'')
          ([Accepted, AcceptFailed (errorString ''too many open files'') True, Accepted]
           @ AcceptFailed (errorString ''accept: bad file descriptor'') False # []))
     = Returned (Some (errorString ''accept: bad file descriptor''))
   \<and> fst (Run (projr (New exampleConfig exampleLogger))
          (\<lambda>addr. Inl (errorString ''listen tcp 127.0.0.1:80: bind: permission denied'')) [])
     = Returned (Some (errorString ''listen tcp 127.0.0.1:80: bind: permission denied''))"
proof -
  obtain p where p: "New exampleConfig exampleLogger = Inr p"
    by (rule example_New)
  have k: "list_all keepsServing
             [Accepted, AcceptFailed (errorString ''too many open files'') True, Accepted]"
    by simp
  note n = New_Addr(2)[OF p]
  show ?thesis
    using Run_returns_non_nil_error[of p "\<lambda>addr. Inr ''127.0.0.1:40123''" "[]"
            "errorString ''accept: bad file descriptor''" "''127.0.0.1:40123''"
            "[Accepted, AcceptFailed (errorString ''too many open files'') True, Accepted]" "[]"]
          Run_returns_non_nil_error[of p
            "\<lambda>addr. Inl (errorString ''listen tcp 127.0.0.1:80: bind: permission denied'')" "[]"
            "errorString ''listen tcp 127.0.0.1:80: bind: permission denied''"]
          k n p
    by simp
qed

section \<open>\<open>Shutdown\<close>\<close>











section \<open>Hop-by-hop headers\<close>




section \<open>Failures of the outbound leg\<close>

lemma http_Error_status:
  "rwStatus w = None \<Longrightarrow> rwStatus (http_Error w msg code) = Some code"
  by (simp add: http_Error_def Write_def WriteHeader_def Let_def)

lemma http_Error_body:
  "rwBody (http_Error w msg code) = rwBody w @ msg @ [CHR 0x0A]"
  by (simp add: http_Error_def Write_def WriteHeader_def Let_def)

lemma http_Error_content_type:
  "rwHeader (http_Error w msg code) ''Content-Type'' = Some [''text/plain; charset=utf-8'']"
  by (simp add: http_Error_def Write_def WriteHeader_def Let_def Header_Set_apply canonical_keys)

lemma Logger_Error_exited: "exited (Logger_Error l msg args w) = exited w"
  by (simp add: Logger_Error_def slog_log_def)

lemma ServeHTTP_round_trip_failed:
  assumes "outgoingRequest p req = Inr outreq" and "roundTrip (Transport p) outreq = Inl err"
  shows "ServeHTTP Quote roundTrip p rw req w =
           (ErrorHandled (fst (getErrorHandler p rw outreq err w)),
            snd (getErrorHandler p rw outreq err w))"
  using assms by (simp add: ServeHTTP_def split: prod.splits)

lemma ServeHTTP_round_trip_ok:
  assumes "outgoingRequest p req = Inr outreq" and "roundTrip (Transport p) outreq = Inr res"
  shows "ServeHTTP Quote roundTrip p rw req w = (RoundTripped res, w)"
  using assms by (simp add: ServeHTTP_def)

text \<open>
  C3. When the transport returns an error for the outbound request, the handler built
  by \<open>New\<close> returns normally, having called the error handler of \<open>New\<close>: the logger is
  called at level \<open>error\<close> with the message \<open>Reverse proxy error\<close>, the URL of the outbound
  request under \<open>url\<close> and the error under \<open>error\<close> (a record that a handler whose level is
  at most \<open>error\<close> writes), and the response, not yet begun, gets the status 502, the
  content type \<open>text/plain\<close> and the body \<open>Proxy Error: \<close> followed by the text of the error
  and a newline. The process has not exited, and a request that follows the failed one
  and whose round trip succeeds is forwarded.
\<close>

theorem New_error_handler_answers_502:
  assumes "New cfg lg = Inr p"
    and "outgoingRequest (Handler (server p)) req = Inr outreq"
    and "roundTrip (Transport (Handler (server p))) outreq = Inl err"
    and "rwStatus rw = None" and "exited w = None"
  shows "\<exists>rw' w'.
           ServeHTTP Quote roundTrip (Handler (server p)) rw req w = (ErrorHandled rw', w')
         \<and> rw' = http_Error rw (''Proxy Error: '' @ Error err) StatusBadGateway
         \<and> rwStatus rw' = Some StatusBadGateway \<and> StatusBadGateway = 502
         \<and> rwBody rw' = rwBody rw @ ''Proxy Error: '' @ Error err @ [CHR 0x0A]
         \<and> HasPrefix (''Proxy Error: '' @ Error err @ [CHR 0x0A]) ''Proxy Error''
         \<and> rwHeader rw' ''Content-Type'' = Some [''text/plain; charset=utf-8'']
         \<and> w' = Logger_Error lg ''Reverse proxy error''
                    [(''url'', StringValue (URL_String (ReqURL outreq))),
                     (''error'', ErrorValue err)] w
         \<and> (handlerLevel lg \<le> LevelError \<longrightarrow>
              logged w' = logged w @ [\<lparr>recLevel = LevelError, recMsg = ''Reverse proxy error'',
                              recAttrs = [(''url'', StringValue (URL_String (ReqURL outreq))),
                                          (''error'', ErrorValue err)]\<rparr>])
         \<and> exited w' = None
         \<and> (\<forall>rw2 req2 outreq2 res.
                outgoingRequest (Handler (server p)) req2 = Inr outreq2
                \<and> roundTrip (Transport (Handler (server p))) outreq2 = Inr res
                \<longrightarrow> serveRequests Quote roundTrip (Handler (server p))
                        [(rw, req), (rw2, req2)] w
                      = ([ErrorHandled rw', RoundTripped res], w'))"
proof -
  let ?rw = "http_Error rw (''Proxy Error: '' @ Error err) StatusBadGateway"
  let ?w = "Logger_Error lg ''Reverse proxy error''
                    [(''url'', StringValue (URL_String (ReqURL outreq))),
                     (''error'', ErrorValue err)] w"
  have s: "ServeHTTP Quote roundTrip (Handler (server p)) rw req w = (ErrorHandled ?rw, ?w)"
    using ServeHTTP_round_trip_failed[of "Handler (server p)" req outreq roundTrip err Quote rw w]
          assms(2,3) New_ErrorHandler[OF assms(1), of rw outreq err w]
    by simp
  have 1: "rwStatus ?rw = Some StatusBadGateway"
    by (rule http_Error_status[OF assms(4)])
  have 2: "StatusBadGateway = 502"
    by (simp add: StatusBadGateway_def)
  have 3: "rwBody ?rw = rwBody rw @ ''Proxy Error: '' @ Error err @ [CHR 0x0A]"
    by (simp add: http_Error_body)
  have 4: "HasPrefix (''Proxy Error: '' @ Error err @ [CHR 0x0A]) ''Proxy Error''"
    by (simp add: HasPrefix_def)
  have 5: "rwHeader ?rw ''Content-Type'' = Some [''text/plain; charset=utf-8'']"
    by (rule http_Error_content_type)
  have 6: "handlerLevel lg \<le> LevelError \<longrightarrow>
              logged ?w = logged w @ [\<lparr>recLevel = LevelError, recMsg = ''Reverse proxy error'',
                              recAttrs = [(''url'', StringValue (URL_String (ReqURL outreq))),
                                          (''error'', ErrorValue err)]\<rparr>]"
    by (simp add: Logger_Error_def slog_log_def)
  have 7: "exited ?w = None"
    using assms(5) by (simp add: Logger_Error_exited)
  have 8: "\<forall>rw2 req2 outreq2 res.
                outgoingRequest (Handler (server p)) req2 = Inr outreq2
                \<and> roundTrip (Transport (Handler (server p))) outreq2 = Inr res
                \<longrightarrow> serveRequests Quote roundTrip (Handler (server p))
                        [(rw, req), (rw2, req2)] w
                      = ([ErrorHandled ?rw, RoundTripped res], ?w)"
  proof (intro allI impI, elim conjE)
    fix rw2 req2 outreq2 res
    assume a: "outgoingRequest (Handler (server p)) req2 = Inr outreq2"
      and b: "roundTrip (Transport (Handler (server p))) outreq2 = Inr res"
    have "ServeHTTP Quote roundTrip (Handler (server p)) rw2 req2 ?w = (RoundTripped res, ?w)"
      using ServeHTTP_round_trip_ok[of "Handler (server p)" req2 outreq2 roundTrip res Quote rw2 ?w]
            a b by simp
    then show "serveRequests Quote roundTrip (Handler (server p)) [(rw, req), (rw2, req2)] w
                 = ([ErrorHandled ?rw, RoundTripped res], ?w)"
      using s 7 assms(5) by simp
  qed
  show ?thesis
    using s 1 2 3 4 5 6 7 8 by blast
qed

theorem New_error_handler_answers_502_witness:
  "\<exists>rw' w'. serveRequests (\<lambda>s. s)
          (\<lambda>t r. if Method r = ''GET''
                  then Inl (errorString ''proxyconnect tcp: connection refused'')
                  else Inr \<lparr>StatusCode = 200, RespHeader = Map.empty, RespBody = ''hello''\<rparr>)
          (Handler (server (projr (New exampleConfig exampleLogger))))
          [(\<lparr>rwHeader = Map.empty, rwStatus = None, rwBody = []\<rparr>, exampleRequest),
           (\<lparr>rwHeader = Map.empty, rwStatus = None, rwBody = []\<rparr>, chunkedRequest)]
          \<lparr>logged = [], exited = None\<rparr>
        = ([ErrorHandled rw',
            RoundTripped \<lparr>StatusCode = 200, RespHeader = Map.empty, RespBody = ''hello''\<rparr>], w')
      \<and> logged w' =
            [\<lparr>recLevel = 8, recMsg = ''Reverse proxy error'',
              recAttrs = [(''url'', StringValue
                             ''http://example.internal:8080/api/some/path?token=abc&q=1''),
                          (''error'', ErrorValue (errorString ''proxyconnect tcp: connection refused''))]\<rparr>]
      \<and> exited w' = None
      \<and> rwStatus rw' = Some 502
      \<and> rwBody rw' = ''Proxy Error: proxyconnect tcp: connection refused'' @ [CHR 0x0A]"
proof -
  let ?rt = "\<lambda>(t :: Transport option) r. if Method r = ''GET''
                  then Inl (errorString ''proxyconnect tcp: connection refused'')
                  else Inr \<lparr>StatusCode = 200, RespHeader = Map.empty, RespBody = ''hello''\<rparr>"
  obtain p where p: "New exampleConfig exampleLogger = Inr p"
    by (rule example_New)
  obtain outreq where o: "outgoingRequest (Handler (server p)) exampleRequest = Inr outreq"
    by (rule example_outgoing[OF p])
  obtain outreq2 where o2: "outgoingRequest (Handler (server p)) chunkedRequest = Inr outreq2"
    by (rule chunked_outgoing[OF p])
  have m: "Method outreq = ''GET''"
    using outgoingRequest_Inr(5)[OF o] New_Director_fields(3)[OF p]
    by (simp add: exampleRequest_def)
  have m2: "Method outreq2 = ''POST''"
    using outgoingRequest_Inr(5)[OF o2] New_Director_fields(3)[OF p]
    by (simp add: chunkedRequest_def)
  have f: "?rt (Transport (Handler (server p))) outreq
             = Inl (errorString ''proxyconnect tcp: connection refused'')"
    using m by simp
  have g: "?rt (Transport (Handler (server p))) outreq2
             = Inr \<lparr>StatusCode = 200, RespHeader = Map.empty, RespBody = ''hello''\<rparr>"
    using m2 by simp
  have "ReqURL outreq = ReqURL (rewriteRequestURL (cloned exampleRequest)
             (new_URL\<lparr>Scheme := ''http'', Host := ''example.internal:8080'', Path := ''/api/'',
                RawQuery := ''token=abc''\<rparr>))"
    using outgoingRequest_Inr(2)[OF o] New_Director[OF p example_target] by simp
  then have u: "URL_String (ReqURL outreq)
                  = ''http://example.internal:8080/api/some/path?token=abc&q=1''"
    by (simp only:) code_simp
  have l: "handlerLevel exampleLogger \<le> LevelError"
    by (simp add: exampleLogger_def LevelInfo_def LevelError_def)
  have e: "LevelError = 8"
    by (simp add: LevelError_def)
  obtain rw' w' where r:
      "ServeHTTP (\<lambda>s. s) ?rt (Handler (server p))
          \<lparr>rwHeader = Map.empty, rwStatus = None, rwBody = []\<rparr> exampleRequest
          \<lparr>logged = [], exited = None\<rparr> = (ErrorHandled rw', w')"
      "rwStatus rw' = Some StatusBadGateway" "StatusBadGateway = 502"
      "rwBody rw' = rwBody \<lparr>rwHeader = Map.empty, rwStatus = None, rwBody = []\<rparr>
                    @ ''Proxy Error: '' @ Error (errorString ''proxyconnect tcp: connection refused'')
                    @ [CHR 0x0A]"
      "handlerLevel exampleLogger \<le> LevelError \<longrightarrow>
         logged w' = logged \<lparr>logged = [], exited = None\<rparr>
            @ [\<lparr>recLevel = LevelError, recMsg = ''Reverse proxy error'',
                recAttrs = [(''url'', StringValue (URL_String (ReqURL outreq))),
                            (''error'', ErrorValue (errorString ''proxyconnect tcp: connection refused''))]\<rparr>]"
      "exited w' = None"
      "\<forall>rw2 req2 outreq2 res.
          outgoingRequest (Handler (server p)) req2 = Inr outreq2
          \<and> ?rt (Transport (Handler (server p))) outreq2 = Inr res
          \<longrightarrow> serveRequests (\<lambda>s. s) ?rt (Handler (server p))
                  [(\<lparr>rwHeader = Map.empty, rwStatus = None, rwBody = []\<rparr>, exampleRequest),
                   (rw2, req2)] \<lparr>logged = [], exited = None\<rparr>
                = ([ErrorHandled rw', RoundTripped res], w')"
    using New_error_handler_answers_502[where roundTrip = ?rt and Quote = "\<lambda>s. s"
            and rw = "\<lparr>rwHeader = Map.empty, rwStatus = None, rwBody = []\<rparr>"
            and w = "\<lparr>logged = [], exited = None\<rparr>", OF p o f]
    by auto
  have q: "serveRequests (\<lambda>s. s) ?rt (Handler (server p))
                  [(\<lparr>rwHeader = Map.empty, rwStatus = None, rwBody = []\<rparr>, exampleRequest),
                   (\<lparr>rwHeader = Map.empty, rwStatus = None, rwBody = []\<rparr>, chunkedRequest)]
                  \<lparr>logged = [], exited = None\<rparr>
             = ([ErrorHandled rw',
                 RoundTripped \<lparr>StatusCode = 200, RespHeader = Map.empty, RespBody = ''hello''\<rparr>], w')"
    using r(7) o2 g by blast
  show ?thesis
    using q r(2-6) p u l e by auto
qed

end
